theory Spec2Isabelle
  imports Complex_Main
begin

section \<open>Python values, exceptions and arrays\<close>

text \<open>
  The development embeds \<^verbatim>\<open>FLife/spectralData.py\<close> (class \<^verbatim>\<open>SpectralData\<close>).
  Arguments that the Python code inspects with \<^verbatim>\<open>isinstance\<close> are values of
  \<open>pyval\<close>; a raised exception is the \<open>Inl\<close> side of a sum. Array elements
  are real numbers: rounding and overflow of 64-bit floats are not modelled, the
  special values \<^verbatim>\<open>inf\<close> and \<^verbatim>\<open>nan\<close> are (type \<open>npfloat\<close> below).
\<close>

datatype error =
    TypeError string
  | ValueError string
  | IndexError
  | KeyError
  | ZeroDivisionError
  | Exception string

datatype pyval =
    PyNone
  | PyBool bool
  | PyInt int
  | PyFloat real
  | PyStr string
  | PyArray "real list"
  | PyList "pyval list"
  | PyTuple "pyval list"

text \<open>\<^verbatim>\<open>isinstance(v, int)\<close>: \<^verbatim>\<open>bool\<close> is a subclass of \<^verbatim>\<open>int\<close>.\<close>

fun isinstance_int :: "pyval \<Rightarrow> bool" where
  "isinstance_int (PyBool b) = True"
| "isinstance_int (PyInt n) = True"
| "isinstance_int v = False"

text \<open>\<^verbatim>\<open>isinstance(v, (int, float))\<close>.\<close>

fun isinstance_num :: "pyval \<Rightarrow> bool" where
  "isinstance_num (PyBool b) = True"
| "isinstance_num (PyInt n) = True"
| "isinstance_num (PyFloat x) = True"
| "isinstance_num v = False"

fun as_int :: "pyval \<Rightarrow> int" where
  "as_int (PyBool b) = (if b then 1 else 0)"
| "as_int (PyInt n) = n"
| "as_int v = 0"

fun as_real :: "pyval \<Rightarrow> real" where
  "as_real (PyBool b) = (if b then 1 else 0)"
| "as_real (PyInt n) = of_int n"
| "as_real (PyFloat x) = x"
| "as_real v = 0"

text \<open>
  A two-dimensional \<^verbatim>\<open>ndarray\<close>: the number of columns is kept beside the rows, since
  an array without rows still has a shape. \<open>column a j\<close> is \<^verbatim>\<open>a[:, j]\<close>.
\<close>

record array2d =
  ncols :: nat
  rows :: "real list list"

definition column :: "array2d \<Rightarrow> nat \<Rightarrow> error + real list" where
  "column a j = (if j < ncols a then Inr (map (\<lambda>r. r ! j) (rows a)) else Inl IndexError)"

text \<open>\<^verbatim>\<open>np.column_stack((f, psd))\<close> of two one-dimensional arrays.\<close>

definition column_stack :: "real list \<Rightarrow> real list \<Rightarrow> error + array2d" where
  "column_stack f p =
     (if length f = length p
      then Inr \<lparr>ncols = 2, rows = map2 (\<lambda>a b. [a, b]) f p\<rparr>
      else Inl (ValueError ''all the input array dimensions except for the concatenation axis must match exactly''))"

text \<open>\<^verbatim>\<open>a[lo:hi, :]\<close> for non-negative bounds.\<close>

definition row_slice :: "array2d \<Rightarrow> nat \<Rightarrow> nat \<Rightarrow> array2d" where
  "row_slice a lo hi = a\<lparr>rows := take (hi - lo) (drop lo (rows a))\<rparr>"

text \<open>\<^verbatim>\<open>ndarray.argmin()\<close>: the index of the first occurrence of the minimum.\<close>

fun argmin_scan :: "real list \<Rightarrow> nat \<Rightarrow> real \<Rightarrow> nat \<Rightarrow> nat" where
  "argmin_scan [] k best bi = bi"
| "argmin_scan (x # xs) k best bi =
     (if x < best then argmin_scan xs (Suc k) x k else argmin_scan xs (Suc k) best bi)"

definition argmin :: "real list \<Rightarrow> error + nat" where
  "argmin xs =
     (case xs of
        [] \<Rightarrow> Inl (ValueError ''attempt to get argmin of an empty sequence'')
      | x # r \<Rightarrow> Inr (argmin_scan r 1 x 0))"

text \<open>\<^verbatim>\<open>np.cumsum\<close>.\<close>

fun cumsum_acc :: "real \<Rightarrow> real list \<Rightarrow> real list" where
  "cumsum_acc s [] = []"
| "cumsum_acc s (x # xs) = (s + x) # cumsum_acc (s + x) xs"

definition cumsum :: "real list \<Rightarrow> real list" where
  "cumsum xs = cumsum_acc 0 xs"

text \<open>A \<^verbatim>\<open>for\<close> loop appending one result per element; the first exception ends it.\<close>

fun mapE :: "('a \<Rightarrow> error + 'b) \<Rightarrow> 'a list \<Rightarrow> error + 'b list" where
  "mapE f [] = Inr []"
| "mapE f (x # xs) =
     (case f x of
        Inl e \<Rightarrow> Inl e
      | Inr y \<Rightarrow> (case mapE f xs of Inl e \<Rightarrow> Inl e | Inr ys \<Rightarrow> Inr (y # ys)))"

section \<open>Band splitter\<close>

text \<open>Method \<^verbatim>\<open>_equalAreaBands(self, N)\<close>; \<open>psd\<close> is \<^verbatim>\<open>self.psd\<close>.\<close>

definition equalAreaBands :: "array2d \<Rightarrow> pyval \<Rightarrow> error + nat list" where
  "equalAreaBands psd N =
     (if \<not> isinstance_int N
      then Inl (TypeError ''Parameter `PSD_splitting[1]` must be of type int.'')
      else case column psd 1 of
        Inl e \<Rightarrow> Inl e
      | Inr psd_val \<Rightarrow>
          (let q_area = sum_list psd_val;
               c_psd = cumsum psd_val
           in mapE (\<lambda>n. argmin (map (\<lambda>c. \<bar>c - (real n + 1) * q_area / of_int (as_int N)\<bar>) c_psd))
                [0 ..< nat (as_int N)]))"

text \<open>Method \<^verbatim>\<open>_userDefinedBands(self, freq_list)\<close>.\<close>

fun seq_items :: "pyval \<Rightarrow> pyval list option" where
  "seq_items (PyList vs) = Some vs"
| "seq_items (PyTuple vs) = Some vs"
| "seq_items v = None"

definition userDefinedBands :: "array2d \<Rightarrow> pyval \<Rightarrow> error + nat list" where
  "userDefinedBands psd freq_list =
     (case seq_items freq_list of
        None \<Rightarrow> Inl (TypeError ''Parameter `PSD_splitting[1]` must be of type list or tuple.'')
      | Some freqs \<Rightarrow>
          if \<not> list_all isinstance_num freqs
          then Inl (TypeError ''Parameter `PSD_splitting[1]` elements must be of type int or float.'')
          else case column psd 0 of
            Inl e \<Rightarrow> Inl e
          | Inr psd_freq \<Rightarrow>
              mapE (\<lambda>fr. argmin (map (\<lambda>x. \<bar>x - as_real fr\<bar>) psd_freq)) freqs)"

text \<open>
  The format field \<^verbatim>\<open>{method:s}\<close> of the message built in the handler: a string is
  inserted as it is, a number rejects the format code \<^verbatim>\<open>s\<close>, any other object rejects
  a non-empty format string (the texts of these two messages are shortened).
\<close>

fun format_s :: "pyval \<Rightarrow> error + string" where
  "format_s (PyStr s) = Inr s"
| "format_s (PyBool b) = Inl (ValueError ''Unknown format code'')"
| "format_s (PyInt n) = Inl (ValueError ''Unknown format code'')"
| "format_s (PyFloat x) = Inl (ValueError ''Unknown format code'')"
| "format_s v = Inl (TypeError ''unsupported format string'')"

text \<open>
  Method \<^verbatim>\<open>_get_band_stop_frequency(self, PSD_splitting)\<close>. The dictionary lookup and
  the call of the splitter are inside one \<^verbatim>\<open>try\<close> whose bare \<^verbatim>\<open>except\<close> replaces every
  exception by a \<^verbatim>\<open>ValueError\<close>; the two subscripts of the tuple are outside it.
\<close>

definition method_dict :: "array2d \<Rightarrow> pyval \<Rightarrow> (pyval \<Rightarrow> error + nat list) option" where
  "method_dict psd method =
     (if method = PyStr ''equalAreaBands'' then Some (equalAreaBands psd)
      else if method = PyStr ''userDefinedBands'' then Some (userDefinedBands psd)
      else None)"

definition get_band_stop_frequency :: "array2d \<Rightarrow> pyval \<Rightarrow> error + nat list" where
  "get_band_stop_frequency psd PSD_splitting =
     (case PSD_splitting of
        PyTuple vs \<Rightarrow>
          (if length vs < 2 then Inl IndexError
           else
             (let method = vs ! 0; arg = vs ! 1;
                  attempt = (case method_dict psd method of
                               None \<Rightarrow> Inl KeyError
                             | Some splitter \<Rightarrow> splitter arg)
              in case attempt of
                   Inr freq_indx \<Rightarrow> Inr freq_indx
                 | Inl e \<Rightarrow>
                     (case format_s method of
                        Inl e' \<Rightarrow> Inl e'
                      | Inr s \<Rightarrow> Inl (ValueError (''Unknown splitting method: '' @ s)))))
      | _ \<Rightarrow> Inl (TypeError ''Parameter `PSD_splitting` must be of type tuple.''))"

section \<open>Floating-point special values\<close>

text \<open>
  Results of the moment engine are \<^verbatim>\<open>float64\<close> values that may be infinite or
  not-a-number: division by zero and a zero base under a negative exponent do not
  raise in NumPy. \<open>Fin r\<close> is the finite value \<open>r\<close> (computed exactly);
  signed zeros are not distinguished, a zero divisor counts as \<^verbatim>\<open>+0.0\<close>.
\<close>

datatype npfloat = Fin real | PInf | NInf | NaN

fun sign_of :: "npfloat \<Rightarrow> real" where
  "sign_of PInf = 1"
| "sign_of NInf = - 1"
| "sign_of (Fin a) = sgn a"
| "sign_of NaN = 0"

definition inf_of :: "real \<Rightarrow> npfloat" where
  "inf_of s = (if 0 < s then PInf else if s < 0 then NInf else NaN)"

fun np_add :: "npfloat \<Rightarrow> npfloat \<Rightarrow> npfloat" where
  "np_add (Fin a) (Fin b) = Fin (a + b)"
| "np_add NaN y = NaN"
| "np_add x NaN = NaN"
| "np_add (Fin a) y = y"
| "np_add x (Fin b) = x"
| "np_add x y = (if x = y then x else NaN)"

fun np_mul :: "npfloat \<Rightarrow> npfloat \<Rightarrow> npfloat" where
  "np_mul (Fin a) (Fin b) = Fin (a * b)"
| "np_mul NaN y = NaN"
| "np_mul x NaN = NaN"
| "np_mul x y = inf_of (sign_of x * sign_of y)"

fun np_div :: "npfloat \<Rightarrow> npfloat \<Rightarrow> npfloat" where
  "np_div (Fin a) (Fin b) = (if b = 0 then inf_of a else Fin (a / b))"
| "np_div NaN y = NaN"
| "np_div x NaN = NaN"
| "np_div (Fin a) y = Fin 0"
| "np_div x (Fin b) = inf_of (sign_of x * (if b < 0 then - 1 else 1))"
| "np_div x y = NaN"

fun np_sqrt :: "npfloat \<Rightarrow> npfloat" where
  "np_sqrt (Fin a) = (if a < 0 then NaN else Fin (sqrt a))"
| "np_sqrt PInf = PInf"
| "np_sqrt NInf = NaN"
| "np_sqrt NaN = NaN"

text \<open>\<^verbatim>\<open>x ** y\<close> for a finite base and a finite exponent.\<close>

definition np_power :: "real \<Rightarrow> real \<Rightarrow> npfloat" where
  "np_power x y =
     (if y = 0 then Fin 1
      else if 0 < x then Fin (x powr y)
      else if x = 0 then (if 0 < y then Fin 0 else PInf)
      else if y \<in> \<int> then Fin (x powi \<lfloor>y\<rfloor>)
      else NaN)"

definition np_sum :: "npfloat list \<Rightarrow> npfloat" where
  "np_sum ys = foldl np_add (Fin 0) ys"

text \<open>\<^verbatim>\<open>np.diff(x)\<close> and \<^verbatim>\<open>np.trapz(y, x)\<close>, the latter as NumPy defines it:
  \<^verbatim>\<open>(d * (y[1:] + y[:-1]) / 2.0).sum()\<close> with \<^verbatim>\<open>d = diff(x)\<close>.\<close>

definition diff :: "real list \<Rightarrow> real list" where
  "diff x = map2 (\<lambda>b a. b - a) (tl x) (butlast x)"

definition trapz :: "npfloat list \<Rightarrow> real list \<Rightarrow> npfloat" where
  "trapz y x =
     np_sum (map2 (\<lambda>d s. np_div (np_mul (Fin d) s) (Fin 2))
               (diff x) (map2 np_add (tl y) (butlast y)))"

section \<open>Moment engine\<close>

text \<open>Method \<^verbatim>\<open>_get_spectral_moment(self, psd, i)\<close>.\<close>

definition get_spectral_moment :: "array2d \<Rightarrow> pyval \<Rightarrow> error + npfloat" where
  "get_spectral_moment psd i =
     (if \<not> isinstance_num i
      then Inl (TypeError ''Parameter `i` must be of type int or float'')
      else case column psd 0 of
        Inl e \<Rightarrow> Inl e
      | Inr f \<Rightarrow>
          (case column psd 1 of
             Inl e \<Rightarrow> Inl e
           | Inr p \<Rightarrow>
               Inr (trapz (map2 (\<lambda>fk pk. np_mul (np_power (2 * pi * fk) (as_real i)) (Fin pk)) f p) f)))"

text \<open>
  Method \<^verbatim>\<open>get_spectral_moments(self, PSD_splitting, moments)\<close>. The slice of band
  \<open>index\<close> is \<^verbatim>\<open>psd[:b[index]+1, :]\<close> for the first band and
  \<^verbatim>\<open>psd[b[index-1]:b[index]+1, :]\<close> for the others.
\<close>

definition band_slice :: "array2d \<Rightarrow> nat list \<Rightarrow> nat \<Rightarrow> array2d" where
  "band_slice psd band_stop_indexes index =
     (if index = 0 then row_slice psd 0 (band_stop_indexes ! index + 1)
      else row_slice psd (band_stop_indexes ! (index - 1)) (band_stop_indexes ! index + 1))"

definition get_spectral_moments :: "array2d \<Rightarrow> pyval \<Rightarrow> pyval list \<Rightarrow> error + npfloat list list" where
  "get_spectral_moments psd PSD_splitting moments =
     (case get_band_stop_frequency psd PSD_splitting of
        Inl e \<Rightarrow> Inl e
      | Inr band_stop_indexes \<Rightarrow>
          mapE (\<lambda>index. mapE (\<lambda>i. get_spectral_moment (band_slice psd band_stop_indexes index) i) moments)
            [0 ..< length band_stop_indexes])"

section \<open>Derived statistics\<close>

text \<open>\<^verbatim>\<open>2*i\<close> for a Python number.\<close>

fun py_double :: "pyval \<Rightarrow> pyval" where
  "py_double (PyFloat x) = PyFloat (2 * x)"
| "py_double v = PyInt (2 * as_int v)"

text \<open>Method \<^verbatim>\<open>get_bandwidth_estimator(self, PSD_splitting, i)\<close>.\<close>

definition get_bandwidth_estimator :: "array2d \<Rightarrow> pyval \<Rightarrow> pyval \<Rightarrow> error + npfloat list" where
  "get_bandwidth_estimator psd PSD_splitting i =
     (if \<not> isinstance_num i
      then Inl (TypeError ''Parameter `i` must be of type int or float'')
      else case get_spectral_moments psd PSD_splitting [PyInt 0, i, py_double i] of
        Inl e \<Rightarrow> Inl e
      | Inr moments \<Rightarrow>
          Inr (map (\<lambda>band_moments.
                 np_div (band_moments ! 1) (np_sqrt (np_mul (band_moments ! 0) (band_moments ! 2))))
               moments))"

text \<open>Methods \<^verbatim>\<open>get_nup\<close> and \<^verbatim>\<open>get_mp\<close>.\<close>

definition get_nup :: "array2d \<Rightarrow> pyval \<Rightarrow> error + npfloat list" where
  "get_nup psd PSD_splitting =
     (case get_spectral_moments psd PSD_splitting [PyInt 0, PyInt 2] of
        Inl e \<Rightarrow> Inl e
      | Inr moments \<Rightarrow>
          Inr (map (\<lambda>band_moments.
                 np_mul (Fin (1 / (2 * pi))) (np_sqrt (np_div (band_moments ! 1) (band_moments ! 0))))
               moments))"

definition get_mp :: "array2d \<Rightarrow> pyval \<Rightarrow> error + npfloat list" where
  "get_mp psd PSD_splitting =
     (case get_spectral_moments psd PSD_splitting [PyInt 2, PyInt 4] of
        Inl e \<Rightarrow> Inl e
      | Inr moments \<Rightarrow>
          Inr (map (\<lambda>band_moments.
                 np_mul (Fin (1 / (2 * pi))) (np_sqrt (np_div (band_moments ! 1) (band_moments ! 0))))
               moments))"

section \<open>Coefficient cache\<close>

record coefficients =
  self_moments :: "npfloat list"
  self_nu :: npfloat
  self_m_p :: npfloat
  self_alpha075 :: npfloat
  self_alpha1 :: npfloat
  self_alpha2 :: npfloat

text \<open>The target \<^verbatim>\<open>x, = xs\<close> takes the only element of a sequence of length one.\<close>

fun unpack1 :: "'a list \<Rightarrow> error + 'a" where
  "unpack1 [x] = Inr x"
| "unpack1 [] = Inl (ValueError ''not enough values to unpack (expected 1, got 0)'')"
| "unpack1 xs = Inl (ValueError ''too many values to unpack (expected 1)'')"

text \<open>Method \<^verbatim>\<open>_calculate_coefficients(self)\<close>; the assignments run in the source's order.\<close>

definition calculate_coefficients :: "array2d \<Rightarrow> pyval \<Rightarrow> error + coefficients" where
  "calculate_coefficients psd PSD_splitting =
     (case get_spectral_moments psd PSD_splitting [PyInt 0, PyInt 1, PyInt 2, PyInt 3, PyInt 4] of
        Inl e \<Rightarrow> Inl e
      | Inr ms \<Rightarrow>
     (case (case get_nup psd PSD_splitting of Inl e \<Rightarrow> Inl e | Inr v \<Rightarrow> unpack1 v) of
        Inl e \<Rightarrow> Inl e
      | Inr nu' \<Rightarrow>
     (case (case get_mp psd PSD_splitting of Inl e \<Rightarrow> Inl e | Inr v \<Rightarrow> unpack1 v) of
        Inl e \<Rightarrow> Inl e
      | Inr m_p' \<Rightarrow>
     (case (case get_bandwidth_estimator psd PSD_splitting (PyFloat 0.75) of
              Inl e \<Rightarrow> Inl e | Inr v \<Rightarrow> unpack1 v) of
        Inl e \<Rightarrow> Inl e
      | Inr a075 \<Rightarrow>
     (case (case get_bandwidth_estimator psd PSD_splitting (PyInt 1) of
              Inl e \<Rightarrow> Inl e | Inr v \<Rightarrow> unpack1 v) of
        Inl e \<Rightarrow> Inl e
      | Inr a1 \<Rightarrow>
     (case (case get_bandwidth_estimator psd PSD_splitting (PyInt 2) of
              Inl e \<Rightarrow> Inl e | Inr v \<Rightarrow> unpack1 v) of
        Inl e \<Rightarrow> Inl e
      | Inr a2 \<Rightarrow>
          Inr \<lparr>self_moments = concat ms, self_nu = nu', self_m_p = m_p',
               self_alpha075 = a075, self_alpha1 = a1, self_alpha2 = a2\<rparr>))))))"

section \<open>PSD container\<close>

text \<open>
  What the constructor obtains from outside this file is a parameter: the Welch
  estimator \<^verbatim>\<open>scipy.signal.welch\<close>, the generator \<^verbatim>\<open>pyExSi.random_gaussian\<close> (carried
  by the keyword \<^verbatim>\<open>rg\<close>), the PSD entered through \<^verbatim>\<open>tools.PSDgen\<close> and the numbers
  \<^verbatim>\<open>_readf\<close> reads from a file.
\<close>

record externals =
  welch :: "real list \<Rightarrow> real \<Rightarrow> pyval \<Rightarrow> int \<Rightarrow> int option \<Rightarrow> error + (real list \<times> real list)"
  gui_psd :: array2d
  readf :: "string \<Rightarrow> error + real list"

record kwargs =
  kw_dt :: "pyval option"
  kw_rg :: "(nat \<Rightarrow> real list \<Rightarrow> npfloat \<Rightarrow> real list) option"

text \<open>
  The attributes of a \<^verbatim>\<open>SpectralData\<close> object; \<open>None\<close> stands for an attribute
  that was never assigned, whose access raises \<^verbatim>\<open>AttributeError\<close>.
\<close>

record spectral_data =
  self_psd :: array2d
  self_data :: "real list option"
  self_dt :: "npfloat option"
  self_t :: "npfloat option"
  self_trim_length :: "int option option"
  self_PSD_splitting :: pyval
  coeffs :: coefficients

text \<open>The slice \<^verbatim>\<open>xs[:k]\<close> of Python, and the length it leaves of \<open>n\<close> elements.\<close>

definition slice_to :: "int \<Rightarrow> 'a list \<Rightarrow> 'a list" where
  "slice_to k xs = (if 0 \<le> k then take (nat k) xs else take (nat (int (length xs) + k)) xs)"

definition slice_len :: "int \<Rightarrow> nat \<Rightarrow> nat" where
  "slice_len k n = (if 0 \<le> k then min (nat k) n else nat (int n + k))"

text \<open>\<^verbatim>\<open>np.vstack((f, p)).transpose()\<close>.\<close>

definition vstack_transpose :: "real list \<Rightarrow> real list \<Rightarrow> error + array2d" where
  "vstack_transpose f p =
     (if length f = length p
      then Inr \<lparr>ncols = 2, rows = map2 (\<lambda>a b. [a, b]) f p\<rparr>
      else Inl (ValueError ''all the input array dimensions except for the concatenation axis must match exactly''))"

text \<open>
  Method \<^verbatim>\<open>_calculate_psd(self, data, fs, window, nperseg, noverlap, trim)\<close>. With a
  trim length the result is \<^verbatim>\<open>psd[:trim_idx, :trim_idx]\<close>, where
  \<^verbatim>\<open>trim_idx = int(np.floor(trim * df))\<close> and \<^verbatim>\<open>df = fs / nperseg\<close>.
\<close>

definition calculate_psd ::
  "externals \<Rightarrow> real list \<Rightarrow> real \<Rightarrow> pyval \<Rightarrow> int \<Rightarrow> int option \<Rightarrow> int option \<Rightarrow> error + array2d" where
  "calculate_psd ext data' fs window nperseg noverlap trim =
     (case welch ext data' fs window nperseg noverlap of
        Inl e \<Rightarrow> Inl e
      | Inr (f, p) \<Rightarrow>
          (case vstack_transpose f p of
             Inl e \<Rightarrow> Inl e
           | Inr psd' \<Rightarrow>
               (case trim of
                  None \<Rightarrow> Inr psd'
                | Some tr \<Rightarrow>
                    if nperseg = 0 then Inl ZeroDivisionError
                    else
                      (let df = fs / of_int nperseg;
                           trim_idx = \<lfloor>of_int tr * df\<rfloor>
                       in Inr \<lparr>ncols = slice_len trim_idx (ncols psd'),
                               rows = map (slice_to trim_idx) (slice_to trim_idx (rows psd'))\<rparr>))))"

text \<open>
  Method \<^verbatim>\<open>_set_time_history(self, psd, f, rg)\<close>: the values of \<^verbatim>\<open>data\<close>, \<^verbatim>\<open>dt\<close> and
  \<^verbatim>\<open>t\<close> it assigns. \<^verbatim>\<open>f[-1]\<close> raises on an empty array.
\<close>

definition set_time_history ::
  "real list \<Rightarrow> real list \<Rightarrow> (nat \<Rightarrow> real list \<Rightarrow> npfloat \<Rightarrow> real list)
     \<Rightarrow> error + (real list \<times> npfloat \<times> npfloat)" where
  "set_time_history psd_val f rg =
     (if f = [] then Inl IndexError
      else
        (let t' = np_div (Fin (real (length f))) (Fin (last f));
             N = (length f - 1) * 2;
             dt' = np_div t' (Fin (real N))
         in Inr (rg N psd_val (np_div (Fin 1) dt'), dt', t')))"

text \<open>
  The part of \<^verbatim>\<open>__init__\<close> before the coefficients: the stored PSD and the
  attributes \<^verbatim>\<open>data\<close>, \<^verbatim>\<open>dt\<close>, \<^verbatim>\<open>t\<close>, \<^verbatim>\<open>trim_length\<close> (\<open>None\<close>: never assigned).
\<close>

definition time_history_input ::
  "externals \<Rightarrow> real list \<Rightarrow> pyval \<Rightarrow> pyval \<Rightarrow> int \<Rightarrow> int option \<Rightarrow> int option
     \<Rightarrow> error + (array2d \<times> real list option \<times> npfloat option \<times> npfloat option \<times> int option option)" where
  "time_history_input ext data' dt' window nperseg noverlap psd_trim_length =
     (if as_real dt' = 0 then Inl ZeroDivisionError
      else case calculate_psd ext data' (1 / as_real dt') window nperseg noverlap psd_trim_length of
        Inl e \<Rightarrow> Inl e
      | Inr psd' \<Rightarrow>
          Inr (psd', Some data', Some (Fin (as_real dt')),
               Some (Fin (as_real dt' * real (length data'))), Some psd_trim_length))"

definition psd_input ::
  "array2d \<Rightarrow> kwargs
     \<Rightarrow> error + (array2d \<times> real list option \<times> npfloat option \<times> npfloat option \<times> int option option)" where
  "psd_input psd' kw =
     (case kw_rg kw of
        None \<Rightarrow> Inr (psd', None, None, None, None)
      | Some rg \<Rightarrow>
          (case column psd' 1 of
             Inl e \<Rightarrow> Inl e
           | Inr psd_val \<Rightarrow>
               (case column psd' 0 of
                  Inl e \<Rightarrow> Inl e
                | Inr f \<Rightarrow>
                    (case set_time_history psd_val f rg of
                       Inl e \<Rightarrow> Inl e
                     | Inr (d, dt', t') \<Rightarrow> Inr (psd', Some d, Some dt', Some t', None)))))"

text \<open>The keyword \<^verbatim>\<open>dt\<close>, when present, pairs the input with the sampling interval.\<close>

definition deprecated_dt :: "pyval \<Rightarrow> kwargs \<Rightarrow> pyval" where
  "deprecated_dt input kw = (case kw_dt kw of None \<Rightarrow> input | Some d \<Rightarrow> PyTuple [input, d])"

definition read_input ::
  "externals \<Rightarrow> pyval \<Rightarrow> pyval \<Rightarrow> int \<Rightarrow> int option \<Rightarrow> int option \<Rightarrow> kwargs
     \<Rightarrow> error + (array2d \<times> real list option \<times> npfloat option \<times> npfloat option \<times> int option option)" where
  "read_input ext input0 window nperseg noverlap psd_trim_length kw =
     (let input = deprecated_dt input0 kw
      in case input of
           PyNone \<Rightarrow> psd_input (gui_psd ext) kw
         | PyStr s \<Rightarrow>
             if s = ''GUI'' then psd_input (gui_psd ext) kw
             else Inl (Exception ''Unrecognized Input Error. `input` should be tuple with 2 elements.'')
         | PyArray xs \<Rightarrow>
             if 1 < length xs
             then Inl (ValueError ''The truth value of an array with more than one element is ambiguous.'')
             else Inl (Exception ''Unrecognized Input Error. `input` should be tuple with 2 elements.'')
         | PyTuple [PyArray xs, PyArray f] \<Rightarrow>
             (case column_stack f xs of
                Inl e \<Rightarrow> Inl e
              | Inr psd' \<Rightarrow> psd_input psd' kw)
         | PyTuple [PyArray xs, d] \<Rightarrow>
             if isinstance_num d
             then time_history_input ext xs d window nperseg noverlap psd_trim_length
             else Inl (Exception ''Unrecognized Input Error'')
         | PyTuple [PyStr path, d] \<Rightarrow>
             if isinstance_num d
             then (case readf ext path of
                     Inl e \<Rightarrow> Inl e
                   | Inr xs \<Rightarrow> time_history_input ext xs d window nperseg noverlap psd_trim_length)
             else Inl (Exception ''Unrecognized Input Error'')
         | PyTuple [a, b] \<Rightarrow> Inl (Exception ''Unrecognized Input Error'')
         | _ \<Rightarrow> Inl (Exception ''Unrecognized Input Error. `input` should be tuple with 2 elements.''))"

text \<open>
  \<^verbatim>\<open>SpectralData.__init__\<close>: after the input is read, \<^verbatim>\<open>PSD_splitting\<close> is set to
  \<^verbatim>\<open>('equalAreaBands', 1)\<close> and \<^verbatim>\<open>_calculate_coefficients\<close> runs.
\<close>

definition SpectralData_init ::
  "externals \<Rightarrow> pyval \<Rightarrow> pyval \<Rightarrow> int \<Rightarrow> int option \<Rightarrow> int option \<Rightarrow> kwargs \<Rightarrow> error + spectral_data" where
  "SpectralData_init ext input window nperseg noverlap psd_trim_length kw =
     (case read_input ext input window nperseg noverlap psd_trim_length kw of
        Inl e \<Rightarrow> Inl e
      | Inr (psd', data', dt', t', trim') \<Rightarrow>
          (let splitting = PyTuple [PyStr ''equalAreaBands'', PyInt 1]
           in case calculate_coefficients psd' splitting of
                Inl e \<Rightarrow> Inl e
              | Inr c \<Rightarrow>
                  Inr \<lparr>self_psd = psd', self_data = data', self_dt = dt', self_t = t',
                       self_trim_length = trim', self_PSD_splitting = splitting, coeffs = c\<rparr>))"

section \<open>Specification predicates and sample inputs\<close>

text \<open>
  \<open>first_min ys i\<close>: \<open>i\<close> is an index of \<open>ys\<close> whose entry is minimal, and the
  first such index.
\<close>

definition first_min :: "real list \<Rightarrow> nat \<Rightarrow> bool" where
  "first_min ys i \<longleftrightarrow>
     i < length ys \<and> (\<forall>j<length ys. ys ! i \<le> ys ! j) \<and> (\<forall>j<i. ys ! i < ys ! j)"

text \<open>A flat PSD of magnitude 1 over the frequencies 0..4, and a PSD whose first
  sample carries almost all of the magnitude.\<close>

definition flat5 :: array2d where
  "flat5 = \<lparr>ncols = 2, rows = [[0, 1], [1, 1], [2, 1], [3, 1], [4, 1]]\<rparr>"


text \<open>
  The rows of band \<open>k\<close> as the specification words them: rows 0 to \<open>b[0]\<close> for the
  first band, rows \<open>b[k-1]\<close> to \<open>b[k]\<close> for a later one, both ends included.
\<close>

definition band_rows :: "array2d \<Rightarrow> nat list \<Rightarrow> nat \<Rightarrow> real list list" where
  "band_rows psd b k =
     map (\<lambda>j. rows psd ! j) [(if k = 0 then 0 else b ! (k - 1)) ..< Suc (b ! k)]"

text \<open>
  The integrand of the \<open>i\<close>-th spectral moment, \<^verbatim>\<open>(2*pi*f)**i * S(f)\<close>, for a frequency
  \<open>f \<ge> 0\<close>; a zeroth power is 1.
\<close>

definition moment_integrand :: "real \<Rightarrow> real \<Rightarrow> real \<Rightarrow> real" where
  "moment_integrand i fr s = (if i = 0 then 1 else (2 * pi * fr) powr i) * s"

text \<open>
  Sample surroundings: a Welch estimator that returns three frequency bins
  (0, 0.5 and 1, as for \<^verbatim>\<open>fs = 2\<close> and \<^verbatim>\<open>nperseg = 4\<close>) with magnitudes 3, 4 and 5.
\<close>

definition sample_ext :: externals where
  "sample_ext =
     \<lparr>welch = (\<lambda>data' fs window nperseg noverlap. Inr ([0, 1 / 2, 1], [3, 4, 5])),
      gui_psd = flat5,
      readf = (\<lambda>path. Inl (Exception ''no file''))\<rparr>"

text \<open>
  The trimming that the parameter documentation of \<^verbatim>\<open>psd_trim_length\<close> describes
  (number of frequency points to be used for the PSD): the first \<open>n\<close> rows, every
  column kept.
\<close>

definition first_bins :: "nat \<Rightarrow> array2d \<Rightarrow> array2d" where
  "first_bins n a = a\<lparr>rows := take n (rows a)\<rparr>"

text \<open>
  The value \<^verbatim>\<open>_get_spectral_moment\<close> returns for an array with at least two columns
  and the order \<open>i\<close>, and the three statistics formed from the moments of one band.
\<close>

definition moment_value :: "array2d \<Rightarrow> real \<Rightarrow> npfloat" where
  "moment_value a i =
     (let f = map (\<lambda>r. r ! 0) (rows a); p = map (\<lambda>r. r ! 1) (rows a)
      in trapz (map2 (\<lambda>fk pk. np_mul (np_power (2 * pi * fk) i) (Fin pk)) f p) f)"

definition alpha_value :: "array2d \<Rightarrow> real \<Rightarrow> npfloat" where
  "alpha_value a i =
     np_div (moment_value a i) (np_sqrt (np_mul (moment_value a 0) (moment_value a (2 * i))))"

definition frequency_value :: "array2d \<Rightarrow> real \<Rightarrow> real \<Rightarrow> npfloat" where
  "frequency_value a hi lo =
     np_mul (Fin (1 / (2 * pi))) (np_sqrt (np_div (moment_value a hi) (moment_value a lo)))"

text \<open>
  An input that carries a time history: an array, or the path of a file, paired with
  a numeric sampling interval.
\<close>

fun is_time_history :: "pyval \<Rightarrow> bool" where
  "is_time_history (PyTuple [PyArray xs, d]) = isinstance_num d"
| "is_time_history (PyTuple [PyStr path, d]) = isinstance_num d"
| "is_time_history v = False"

text \<open>The policy \<^verbatim>\<open>('equalAreaBands', 1)\<close> that the constructor stores.\<close>

definition whole_psd_policy :: pyval where
  "whole_psd_policy = PyTuple [PyStr ''equalAreaBands'', PyInt 1]"

text \<open>
  The trapezoid sum of the integrand of order \<open>i\<close> over samples with frequencies
  \<open>f\<close> and magnitudes \<open>p\<close>.
\<close>

definition trapezoid_moment :: "real list \<Rightarrow> real list \<Rightarrow> real \<Rightarrow> real" where
  "trapezoid_moment f p i =
     (\<Sum>k<length f - 1.
        (f ! Suc k - f ! k) *
        (moment_integrand i (f ! Suc k) (p ! Suc k) + moment_integrand i (f ! k) (p ! k)) / 2)"

section \<open>Auxiliary facts\<close>

lemma mapE_map: "(\<And>x. x \<in> set xs \<Longrightarrow> f x = Inr (g x)) \<Longrightarrow> mapE f xs = Inr (map g xs)"
  by (induction xs) auto

lemma cumsum_acc_length: "length (cumsum_acc s xs) = length xs"
  by (induction xs arbitrary: s) auto

lemma cumsum_acc_nth: "k < length xs \<Longrightarrow> cumsum_acc s xs ! k = s + sum_list (take (Suc k) xs)"
proof (induction xs arbitrary: s k)
  case Nil
  then show ?case by simp
next
  case (Cons x xs)
  then show ?case by (cases k) (auto simp: add.assoc)
qed

lemma cumsum_length: "length (cumsum xs) = length xs"
  by (simp add: cumsum_def cumsum_acc_length)

lemma cumsum_nth: "k < length xs \<Longrightarrow> cumsum xs ! k = sum_list (take (Suc k) xs)"
  by (simp add: cumsum_def cumsum_acc_nth)

lemma column_length: "column a j = Inr xs \<Longrightarrow> length xs = length (rows a)"
  by (auto simp: column_def split: if_splits)

subsection \<open>The scan of \<open>argmin\<close> finds the first minimum\<close>

lemma argmin_scan_first_min:
  assumes "bi < length pre" "best = pre ! bi"
    "\<forall>j<length pre. best \<le> pre ! j" "\<forall>j<bi. best < pre ! j" "k = length pre"
  shows "first_min (pre @ xs) (argmin_scan xs k best bi)"
  using assms
proof (induction xs arbitrary: pre k best bi)
  case Nil
  then show ?case by (simp add: first_min_def)
next
  case (Cons x xs)
  show ?case
  proof (cases "x < best")
    case True
    have "first_min ((pre @ [x]) @ xs) (argmin_scan xs (Suc k) x k)"
    proof (rule Cons.IH)
      show "k < length (pre @ [x])" using Cons.prems by simp
      show "x = (pre @ [x]) ! k" using Cons.prems by (simp add: nth_append)
      show "\<forall>j<length (pre @ [x]). x \<le> (pre @ [x]) ! j"
        using Cons.prems True by (auto simp: nth_append less_Suc_eq)
      show "\<forall>j<k. x < (pre @ [x]) ! j"
        using Cons.prems True by (auto simp: nth_append)
      show "Suc k = length (pre @ [x])" using Cons.prems by simp
    qed
    then show ?thesis using True by simp
  next
    case False
    have "first_min ((pre @ [x]) @ xs) (argmin_scan xs (Suc k) best bi)"
    proof (rule Cons.IH)
      show "bi < length (pre @ [x])" using Cons.prems by simp
      show "best = (pre @ [x]) ! bi" using Cons.prems by (simp add: nth_append)
      show "\<forall>j<length (pre @ [x]). best \<le> (pre @ [x]) ! j"
        using Cons.prems False by (auto simp: nth_append less_Suc_eq)
      show "\<forall>j<bi. best < (pre @ [x]) ! j"
        using Cons.prems by (auto simp: nth_append)
      show "Suc k = length (pre @ [x])" using Cons.prems by simp
    qed
    then show ?thesis using False by simp
  qed
qed

lemma argmin_first_min: "xs \<noteq> [] \<Longrightarrow> \<exists>i. argmin xs = Inr i \<and> first_min xs i"
proof (cases xs)
  case Nil
  then show "xs \<noteq> [] \<Longrightarrow> ?thesis" by simp
next
  case (Cons x r)
  have "first_min ([x] @ r) (argmin_scan r 1 x 0)"
    by (rule argmin_scan_first_min) auto
  then show ?thesis using Cons by (simp add: argmin_def)
qed

lemma first_min_exact:
  assumes fm: "first_min (map (\<lambda>x. \<bar>x - t\<bar>) ys) i" and j: "j < length ys" and hit: "ys ! j = t"
    and d: "distinct ys"
  shows "i = j"
proof -
  have i: "i < length ys" using fm by (simp add: first_min_def)
  have "\<bar>ys ! i - t\<bar> \<le> \<bar>ys ! j - t\<bar>"
    using fm j i by (auto simp: first_min_def)
  then have "ys ! i = ys ! j" using hit by simp
  then show ?thesis using d i j by (simp add: nth_eq_iff_index_eq)
qed



subsection \<open>Cumulative sums of non-negative magnitudes\<close>



lemma sum_list_nonneg_take_le:
  fixes xs :: "real list"
  assumes "\<forall>x\<in>set xs. 0 \<le> x"
  shows "sum_list (take k xs) \<le> sum_list xs"
proof -
  have "sum_list xs = sum_list (take k xs) + sum_list (drop k xs)"
    by (metis append_take_drop_id sum_list_append)
  moreover have "0 \<le> sum_list (drop k xs)"
    using assms by (intro sum_list_nonneg) (auto dest: in_set_dropD)
  ultimately show ?thesis by simp
qed

lemma first_min_total_last:
  assumes nn: "\<forall>x\<in>set mags. 0 \<le> x" and ne: "mags \<noteq> []" and lp: "0 < last mags"
    and fm: "first_min (map (\<lambda>c. \<bar>c - sum_list mags\<bar>) (cumsum mags)) i"
  shows "i = length mags - 1"
proof -
  let ?L = "length mags - 1"
  have L: "?L < length mags" using ne by simp
  have i: "i < length mags" using fm by (simp add: first_min_def cumsum_length)
  have "\<bar>cumsum mags ! i - sum_list mags\<bar> \<le> \<bar>cumsum mags ! ?L - sum_list mags\<bar>"
    using fm L i by (auto simp: first_min_def cumsum_length)
  moreover have "cumsum mags ! ?L = sum_list mags"
    using L ne by (simp add: cumsum_nth)
  ultimately have eq: "sum_list (take (Suc i) mags) = sum_list mags"
    using i by (simp add: cumsum_nth)
  show ?thesis
  proof (rule ccontr)
    assume "i \<noteq> ?L"
    then have lt: "Suc i \<le> ?L" using i by simp
    have "sum_list (take (Suc i) mags) \<le> sum_list (take ?L mags)"
    proof -
      have "take (Suc i) mags = take (Suc i) (take ?L mags)" using lt by (simp add: min_def)
      moreover have "\<forall>x\<in>set (take ?L mags). 0 \<le> x" using nn by (auto dest: in_set_takeD)
      ultimately show ?thesis using sum_list_nonneg_take_le[of "take ?L mags" "Suc i"] by simp
    qed
    moreover have "sum_list mags = sum_list (take ?L mags) + last mags"
    proof -
      have "mags = butlast mags @ [last mags]" using ne by simp
      then have "sum_list mags = sum_list (butlast mags) + last mags"
        by (metis sum_list.Cons sum_list.Nil sum_list_append add.right_neutral)
      then show ?thesis by (simp add: butlast_conv_take)
    qed
    ultimately show False using eq lp by linarith
  qed
qed

subsection \<open>What the two splitters return\<close>

lemma equalAreaBands_result:
  assumes col: "column psd 1 = Inr mags" and ne: "mags \<noteq> []" and pos: "0 < N"
  shows "\<exists>idx. equalAreaBands psd (PyInt N) = Inr idx \<and> length idx = nat N \<and>
           (\<forall>n<nat N. first_min
               (map (\<lambda>c. \<bar>c - (real n + 1) * sum_list mags / of_int N\<bar>) (cumsum mags)) (idx ! n))"
proof -
  let ?dist = "\<lambda>n::nat. map (\<lambda>c. \<bar>c - (real n + 1) * sum_list mags / of_int N\<bar>) (cumsum mags)"
  have "\<forall>n. \<exists>i. argmin (?dist n) = Inr i \<and> first_min (?dist n) i"
  proof
    fix n
    have "length (?dist n) = length mags" by (simp add: cumsum_length)
    then have "?dist n \<noteq> []" using ne by (metis length_0_conv)
    then show "\<exists>i. argmin (?dist n) = Inr i \<and> first_min (?dist n) i"
      by (rule argmin_first_min)
  qed
  then obtain g where g: "\<And>n. argmin (?dist n) = Inr (g n)" "\<And>n. first_min (?dist n) (g n)"
    by metis
  have "mapE (\<lambda>n. argmin (?dist n)) [0 ..< nat N] = Inr (map g [0 ..< nat N])"
    by (rule mapE_map) (simp add: g(1))
  then have "equalAreaBands psd (PyInt N) = Inr (map g [0 ..< nat N])"
    using col by (simp add: equalAreaBands_def Let_def)
  moreover have "\<forall>n<nat N. first_min (?dist n) (map g [0 ..< nat N] ! n)"
    using g(2) by simp
  ultimately show ?thesis by simp
qed

lemma userDefinedBands_result:
  assumes col: "column psd 0 = Inr freqs" and ne: "freqs \<noteq> []"
    and items: "seq_items freq_list = Some targets" and num: "list_all isinstance_num targets"
  shows "\<exists>idx. userDefinedBands psd freq_list = Inr idx \<and> length idx = length targets \<and>
           (\<forall>n<length targets.
               first_min (map (\<lambda>x. \<bar>x - as_real (targets ! n)\<bar>) freqs) (idx ! n))"
proof -
  let ?dist = "\<lambda>fr. map (\<lambda>x. \<bar>x - as_real fr\<bar>) freqs"
  have "\<forall>fr. \<exists>i. argmin (?dist fr) = Inr i \<and> first_min (?dist fr) i"
    using ne by (intro allI argmin_first_min) simp
  then obtain g where g: "\<And>fr. argmin (?dist fr) = Inr (g fr)" "\<And>fr. first_min (?dist fr) (g fr)"
    by metis
  have "mapE (\<lambda>fr. argmin (?dist fr)) targets = Inr (map g targets)"
    by (rule mapE_map) (simp add: g(1))
  then have res: "userDefinedBands psd freq_list = Inr (map g targets)"
    using col items num by (simp add: userDefinedBands_def)
  have "\<forall>n<length targets. first_min (?dist (targets ! n)) (map g targets ! n)"
    using g(2) by simp
  with res show ?thesis by simp
qed

lemma band_stop_equalAreaBands:
  "get_band_stop_frequency psd (PyTuple [PyStr ''equalAreaBands'', a]) =
     (case equalAreaBands psd a of
        Inr idx \<Rightarrow> Inr idx
      | Inl e \<Rightarrow> Inl (ValueError ''Unknown splitting method: equalAreaBands''))"
  by (simp add: get_band_stop_frequency_def method_dict_def split: sum.splits)

lemma band_stop_userDefinedBands:
  "get_band_stop_frequency psd (PyTuple [PyStr ''userDefinedBands'', a]) =
     (case userDefinedBands psd a of
        Inr idx \<Rightarrow> Inr idx
      | Inl e \<Rightarrow> Inl (ValueError ''Unknown splitting method: userDefinedBands''))"
  by (simp add: get_band_stop_frequency_def method_dict_def split: sum.splits)

lemma flat5_columns:
  "column flat5 0 = Inr [0, 1, 2, 3, 4]" "column flat5 1 = Inr [1, 1, 1, 1, 1]"
  by (simp_all add: flat5_def column_def)

section \<open>The equal-area splitter\<close>



section \<open>The user-defined splitter\<close>

text \<open>
  Claim C9. For a stored PSD with at least one row and a list or tuple of numeric
  targets, \<^verbatim>\<open>_userDefinedBands\<close> returns one index per target, in the order supplied:
  the first index whose frequency is closest to the target by absolute difference.
  When the PSD frequencies are pairwise distinct and a target equals a sample
  frequency, the index returned is the index of that frequency.
\<close>

theorem userDefinedBands_closest:
  assumes col: "column psd 0 = Inr freqs" and ne: "freqs \<noteq> []"
    and items: "seq_items freq_list = Some targets" and num: "list_all isinstance_num targets"
  shows "\<exists>idx. userDefinedBands psd freq_list = Inr idx \<and> length idx = length targets \<and>
           (\<forall>n<length targets.
               first_min (map (\<lambda>x. \<bar>x - as_real (targets ! n)\<bar>) freqs) (idx ! n) \<and>
               (distinct freqs \<longrightarrow>
                  (\<forall>j<length freqs. freqs ! j = as_real (targets ! n) \<longrightarrow> idx ! n = j)))"
proof -
  obtain idx where res: "userDefinedBands psd freq_list = Inr idx"
    and len: "length idx = length targets"
    and fm: "\<forall>n<length targets.
               first_min (map (\<lambda>x. \<bar>x - as_real (targets ! n)\<bar>) freqs) (idx ! n)"
    using userDefinedBands_result[OF col ne items num] by blast
  have "\<forall>n<length targets.
          first_min (map (\<lambda>x. \<bar>x - as_real (targets ! n)\<bar>) freqs) (idx ! n) \<and>
          (distinct freqs \<longrightarrow>
             (\<forall>j<length freqs. freqs ! j = as_real (targets ! n) \<longrightarrow> idx ! n = j))"
  proof (intro allI impI conjI)
    fix n assume "n < length targets"
    then show "first_min (map (\<lambda>x. \<bar>x - as_real (targets ! n)\<bar>) freqs) (idx ! n)"
      using fm by simp
  next
    fix n j
    assume n: "n < length targets" and d: "distinct freqs" and j: "j < length freqs"
      and hit: "freqs ! j = as_real (targets ! n)"
    have "first_min (map (\<lambda>x. \<bar>x - as_real (targets ! n)\<bar>) freqs) (idx ! n)"
      using fm n by simp
    then show "idx ! n = j" by (rule first_min_exact[OF _ j hit d])
  qed
  with res len show ?thesis by blast
qed

theorem userDefinedBands_closest_witness:
  "column flat5 0 = Inr [0, 1, 2, 3, 4] \<and> [0, 1, 2, 3, 4 :: real] \<noteq> [] \<and>
   seq_items (PyList [PyInt 2, PyFloat 3]) = Some [PyInt 2, PyFloat 3] \<and>
   list_all isinstance_num [PyInt 2, PyFloat 3] \<and>
   (\<exists>idx. userDefinedBands flat5 (PyList [PyInt 2, PyFloat 3]) = Inr idx \<and>
      length idx = length [PyInt 2, PyFloat 3] \<and>
      (\<forall>n<length [PyInt 2, PyFloat 3].
          first_min (map (\<lambda>x. \<bar>x - as_real ([PyInt 2, PyFloat 3] ! n)\<bar>) [0, 1, 2, 3, 4]) (idx ! n) \<and>
          (distinct [0, 1, 2, 3, 4 :: real] \<longrightarrow>
             (\<forall>j<length [0, 1, 2, 3, 4 :: real].
                 [0, 1, 2, 3, 4] ! j = as_real ([PyInt 2, PyFloat 3] ! n) \<longrightarrow> idx ! n = j))))"
proof -
  have c: "column flat5 0 = Inr [0, 1, 2, 3, 4]" by (rule flat5_columns)
  have n: "[0, 1, 2, 3, 4 :: real] \<noteq> []" by simp
  have s: "seq_items (PyList [PyInt 2, PyFloat 3]) = Some [PyInt 2, PyFloat 3]" by simp
  have l: "list_all isinstance_num [PyInt 2, PyFloat 3]" by simp
  show ?thesis using c n s l userDefinedBands_closest[OF c n s l] by blast
qed

section \<open>Shape of the boundary sequence\<close>






section \<open>Failures of band splitting\<close>

text \<open>
  Claim C7, as the code has it. A policy whose tag is a string other than the two
  method names fails with the \<^verbatim>\<open>ValueError\<close> \<^verbatim>\<open>Unknown splitting method: <tag>\<close>; a
  policy that is not a tuple fails with a \<^verbatim>\<open>TypeError\<close>; an integer \<open>N \<le> 0\<close> is
  not rejected: equal-area splitting of a PSD with two columns then returns the empty
  boundary sequence.
\<close>

theorem splitting_failures:
  "(tag \<noteq> ''equalAreaBands'' \<and> tag \<noteq> ''userDefinedBands'' \<longrightarrow>
      get_band_stop_frequency psd (PyTuple [PyStr tag, arg]) =
        Inl (ValueError (''Unknown splitting method: '' @ tag)))
   \<and> ((\<forall>vs. policy \<noteq> PyTuple vs) \<longrightarrow>
      get_band_stop_frequency psd policy =
        Inl (TypeError ''Parameter `PSD_splitting` must be of type tuple.''))
   \<and> (1 < ncols psd \<and> N \<le> 0 \<longrightarrow>
      get_band_stop_frequency psd (PyTuple [PyStr ''equalAreaBands'', PyInt N]) = Inr [])"
proof (intro conjI impI)
  assume "tag \<noteq> ''equalAreaBands'' \<and> tag \<noteq> ''userDefinedBands''"
  then show "get_band_stop_frequency psd (PyTuple [PyStr tag, arg]) =
        Inl (ValueError (''Unknown splitting method: '' @ tag))"
    by (simp add: get_band_stop_frequency_def method_dict_def)
next
  assume "\<forall>vs. policy \<noteq> PyTuple vs"
  then show "get_band_stop_frequency psd policy =
        Inl (TypeError ''Parameter `PSD_splitting` must be of type tuple.'')"
    by (cases policy) (simp_all add: get_band_stop_frequency_def)
next
  assume "1 < ncols psd \<and> N \<le> 0"
  then show "get_band_stop_frequency psd (PyTuple [PyStr ''equalAreaBands'', PyInt N]) = Inr []"
    by (simp add: band_stop_equalAreaBands equalAreaBands_def column_def Let_def)
qed

theorem splitting_failures_witness:
  "''nonsense'' \<noteq> ''equalAreaBands'' \<and> ''nonsense'' \<noteq> ''userDefinedBands'' \<and>
   (\<forall>vs. PyStr ''equalAreaBands'' \<noteq> PyTuple vs) \<and> 1 < ncols flat5 \<and> (- 1 :: int) \<le> 0 \<and>
   get_band_stop_frequency flat5 (PyTuple [PyStr ''nonsense'', PyInt 1]) =
     Inl (ValueError (''Unknown splitting method: '' @ ''nonsense'')) \<and>
   get_band_stop_frequency flat5 (PyStr ''equalAreaBands'') =
     Inl (TypeError ''Parameter `PSD_splitting` must be of type tuple.'') \<and>
   get_band_stop_frequency flat5 (PyTuple [PyStr ''equalAreaBands'', PyInt (- 1)]) = Inr []"
proof -
  have a: "''nonsense'' \<noteq> ''equalAreaBands'' \<and> ''nonsense'' \<noteq> ''userDefinedBands''" by simp
  have b: "\<forall>vs. PyStr ''equalAreaBands'' \<noteq> PyTuple vs" by simp
  have c: "1 < ncols flat5 \<and> (- 1 :: int) \<le> 0" by (simp add: flat5_def)
  show ?thesis
    using a b c splitting_failures[of "''nonsense''" flat5 "PyInt 1" "PyStr ''equalAreaBands''" "- 1"]
    by blast
qed

theorem splitting_failures_counterexample:
  "get_band_stop_frequency flat5 (PyTuple [PyStr ''equalAreaBands'', PyInt 0]) = Inr []"
  by (simp add: band_stop_equalAreaBands equalAreaBands_def flat5_def column_def Let_def)

text \<open>
  The \<^verbatim>\<open>TypeError\<close> that a splitter raises for an argument of the wrong type does not
  reach the caller: the handler around the call turns it into the \<^verbatim>\<open>ValueError\<close> of an
  unknown method, carrying the name of the method that was found.
\<close>

lemma swallowed_argument_errors:
  "get_band_stop_frequency flat5 (PyTuple [PyStr ''equalAreaBands'', PyFloat 2.5]) =
     Inl (ValueError ''Unknown splitting method: equalAreaBands'') \<and>
   equalAreaBands flat5 (PyFloat 2.5) =
     Inl (TypeError ''Parameter `PSD_splitting[1]` must be of type int.'') \<and>
   get_band_stop_frequency flat5 (PyTuple [PyStr ''userDefinedBands'', PyList [PyStr ''80'']]) =
     Inl (ValueError ''Unknown splitting method: userDefinedBands'')"
  by (simp add: band_stop_equalAreaBands equalAreaBands_def band_stop_userDefinedBands
      userDefinedBands_def)

section \<open>Band ranges of the moment engine\<close>

lemma mapE_cong: "(\<And>x. x \<in> set xs \<Longrightarrow> f x = g x) \<Longrightarrow> mapE f xs = mapE g xs"
proof (induction xs)
  case Nil
  then show ?case by simp
next
  case (Cons a xs)
  have "f a = g a" using Cons.prems by simp
  moreover have "mapE f xs = mapE g xs" using Cons.prems by (intro Cons.IH) simp
  ultimately show ?case by (simp split: sum.splits)
qed

lemma take_drop_map_nth:
  "hi \<le> length xs \<Longrightarrow> take (hi - lo) (drop lo xs) = map (\<lambda>j. xs ! j) [lo ..< hi]"
  by (rule nth_equalityI) auto

lemma band_slice_rows:
  assumes k: "k < length b" and bound: "\<forall>i\<in>set b. i < length (rows psd)"
  shows "band_slice psd b k = psd\<lparr>rows := band_rows psd b k\<rparr>"
proof -
  have "b ! k < length (rows psd)" using k bound by simp
  then have "Suc (b ! k) \<le> length (rows psd)" by simp
  then have gen: "take (Suc (b ! k) - lo) (drop lo (rows psd)) = map (\<lambda>j. rows psd ! j) [lo ..< Suc (b ! k)]" for lo
    by (rule take_drop_map_nth)
  show ?thesis
  proof (cases "k = 0")
    case True
    then show ?thesis
      using gen[of 0] by (simp add: band_slice_def row_slice_def band_rows_def del: upt_Suc)
  next
    case False
    then show ?thesis
      using gen[of "b ! (k - 1)"] by (simp add: band_slice_def row_slice_def band_rows_def del: upt_Suc)
  qed
qed

text \<open>
  Claim C4. With boundary indices \<open>b\<close> inside the PSD, \<^verbatim>\<open>get_spectral_moments\<close>
  integrates band 0 over rows 0 to \<open>b[0]\<close> inclusive and band \<open>k > 0\<close> over rows
  \<open>b[k-1]\<close> to \<open>b[k]\<close> inclusive: row \<open>b[k-1]\<close> is the first row of band \<open>k\<close>, and
  (for a non-decreasing \<open>b\<close>) it is also the last row of band \<open>k-1\<close>, so adjacent
  bands share their boundary row.
\<close>

theorem band_ranges:
  assumes split: "get_band_stop_frequency psd policy = Inr b"
    and bound: "\<forall>i\<in>set b. i < length (rows psd)"
  shows "get_spectral_moments psd policy orders =
           mapE (\<lambda>k. mapE (get_spectral_moment (psd\<lparr>rows := band_rows psd b k\<rparr>)) orders)
             [0 ..< length b]
       \<and> (b \<noteq> [] \<longrightarrow> band_rows psd b 0 = take (Suc (b ! 0)) (rows psd))
       \<and> (\<forall>k. 0 < k \<and> k < length b \<and> b ! (k - 1) \<le> b ! k \<longrightarrow>
             band_rows psd b k = rows psd ! (b ! (k - 1)) # map (\<lambda>j. rows psd ! j) [Suc (b ! (k - 1)) ..< Suc (b ! k)])
       \<and> (\<forall>k. 0 < k \<and> k < length b \<and> sorted b \<longrightarrow>
             hd (band_rows psd b k) = last (band_rows psd b (k - 1)))"
proof (intro conjI allI impI)
  have "mapE (\<lambda>index. mapE (get_spectral_moment (band_slice psd b index)) orders) [0 ..< length b] =
        mapE (\<lambda>k. mapE (get_spectral_moment (psd\<lparr>rows := band_rows psd b k\<rparr>)) orders) [0 ..< length b]"
    by (rule mapE_cong) (simp add: band_slice_rows[OF _ bound])
  then show "get_spectral_moments psd policy orders =
           mapE (\<lambda>k. mapE (get_spectral_moment (psd\<lparr>rows := band_rows psd b k\<rparr>)) orders)
             [0 ..< length b]"
    by (simp add: get_spectral_moments_def split)
next
  assume "b \<noteq> []"
  then have "Suc (b ! 0) \<le> length (rows psd)" using bound by (cases b) auto
  then show "band_rows psd b 0 = take (Suc (b ! 0)) (rows psd)"
    using take_drop_map_nth[of "Suc (b ! 0)" "rows psd" 0] by (simp add: band_rows_def del: upt_Suc)
next
  fix k assume "0 < k \<and> k < length b \<and> b ! (k - 1) \<le> b ! k"
  then show "band_rows psd b k =
      rows psd ! (b ! (k - 1)) # map (\<lambda>j. rows psd ! j) [Suc (b ! (k - 1)) ..< Suc (b ! k)]"
    by (simp add: band_rows_def upt_conv_Cons del: upt_Suc)
next
  fix k assume h: "0 < k \<and> k < length b \<and> sorted b"
  then have le: "b ! (k - 1) \<le> b ! k" by (simp add: sorted_iff_nth_mono)
  have "hd (band_rows psd b k) = rows psd ! (b ! (k - 1))"
    using h le by (simp add: band_rows_def upt_conv_Cons del: upt_Suc)
  moreover have "last (band_rows psd b (k - 1)) = rows psd ! (b ! (k - 1))"
  proof (cases "k = 1")
    case True
    then show ?thesis by (simp add: band_rows_def)
  next
    case False
    have "b ! (k - 2) \<le> b ! (k - 1)"
      by (rule sorted_nth_mono) (use h in auto)
    moreover have "band_rows psd b (k - 1) = map (\<lambda>j. rows psd ! j) [b ! (k - 2) ..< Suc (b ! (k - 1))]"
      using False h by (simp add: band_rows_def del: upt_Suc) (simp add: numeral_2_eq_2)
    ultimately show ?thesis by simp
  qed
  ultimately show "hd (band_rows psd b k) = last (band_rows psd b (k - 1))" by simp
qed


lemma flat5_two_bands:
  "get_band_stop_frequency flat5 (PyTuple [PyStr ''equalAreaBands'', PyInt 2]) = Inr [1, 4]"
  by (simp add: band_stop_equalAreaBands equalAreaBands_def flat5_def column_def cumsum_def
      argmin_def Let_def upt_conv_Cons)

theorem band_ranges_witness:
  "get_band_stop_frequency flat5 (PyTuple [PyStr ''equalAreaBands'', PyInt 2]) = Inr [1, 4] \<and>
   list_all (\<lambda>i. i < length (rows flat5)) [1, 4] \<and>
   [1, 4 :: nat] \<noteq> [] \<and> sorted [1, 4 :: nat] \<and>
   get_spectral_moments flat5 (PyTuple [PyStr ''equalAreaBands'', PyInt 2]) [PyInt 0, PyInt 2] =
     mapE (\<lambda>k. mapE (get_spectral_moment (flat5\<lparr>rows := band_rows flat5 [1, 4] k\<rparr>)) [PyInt 0, PyInt 2])
       [0 ..< length [1, 4 :: nat]] \<and>
   band_rows flat5 [1, 4] 0 = take (Suc ([1, 4] ! 0)) (rows flat5) \<and>
   hd (band_rows flat5 [1, 4] 1) = last (band_rows flat5 [1, 4] (1 - 1))"
proof -
  have a: "get_band_stop_frequency flat5 (PyTuple [PyStr ''equalAreaBands'', PyInt 2]) = Inr [1, 4]"
    by (rule flat5_two_bands)
  have b: "\<forall>i\<in>set [1, 4 :: nat]. i < length (rows flat5)" by (simp add: flat5_def)
  have b': "list_all (\<lambda>i. i < length (rows flat5)) [1, 4]" by (simp add: flat5_def)
  have c: "[1, 4 :: nat] \<noteq> []" and d: "sorted [1, 4 :: nat]" by simp_all
  have e: "0 < (1 :: nat) \<and> (1 :: nat) < length [1, 4 :: nat] \<and> sorted [1, 4 :: nat]" by simp
  show ?thesis
    using a b' c d e band_ranges[OF a b, of "[PyInt 0, PyInt 2]"] by blast
qed

section \<open>Spectral moments\<close>

lemma foldl_np_add_Fin: "foldl np_add (Fin a) (map Fin xs) = Fin (a + sum_list xs)"
  by (induction xs arbitrary: a) (auto simp: add.assoc)

lemma np_sum_Fin: "np_sum (map Fin xs) = Fin (sum_list xs)"
  by (simp add: np_sum_def foldl_np_add_Fin)

lemma trapz_indexwise:
  assumes "length y = length x"
  shows "trapz y x =
     np_sum (map (\<lambda>k. np_div (np_mul (Fin (x ! Suc k - x ! k)) (np_add (y ! Suc k) (y ! k))) (Fin 2))
               [0 ..< length x - 1])"
proof -
  have "map2 (\<lambda>d s. np_div (np_mul (Fin d) s) (Fin 2)) (diff x) (map2 np_add (tl y) (butlast y)) =
        map (\<lambda>k. np_div (np_mul (Fin (x ! Suc k - x ! k)) (np_add (y ! Suc k) (y ! k))) (Fin 2))
               [0 ..< length x - 1]"
    using assms by (intro nth_equalityI) (auto simp: diff_def nth_tl nth_butlast)
  then show ?thesis by (simp add: trapz_def)
qed

lemma np_power_finite:
  assumes "0 < x \<or> (x = 0 \<and> 0 \<le> i)"
  shows "np_mul (np_power (2 * pi * x) i) (Fin s) = Fin (moment_integrand i x s)"
  using assms by (auto simp: np_power_def moment_integrand_def)

text \<open>
  Claim C3. For a band with frequency column \<open>f\<close> and magnitude column \<open>p\<close> and a
  numeric order \<open>i\<close>, \<^verbatim>\<open>_get_spectral_moment\<close> returns the trapezoidal sum over the
  samples of the band, \<open>\<Sum>k. (f[k+1] - f[k]) * (g[k+1] + g[k]) / 2\<close> with
  \<open>g[k] = (2\<pi> f[k])\<^sup>i * p[k]\<close>, computed in floating-point arithmetic with its
  special values; when every frequency is positive, or is zero under an order
  \<open>i \<ge> 0\<close>, the result is the finite real number given by that sum.
\<close>

theorem spectral_moment_trapezoid:
  assumes c0: "column band 0 = Inr f" and c1: "column band 1 = Inr p" and num: "isinstance_num i"
  shows "get_spectral_moment band i =
           Inr (np_sum (map (\<lambda>k. np_div
                   (np_mul (Fin (f ! Suc k - f ! k))
                      (np_add (np_mul (np_power (2 * pi * f ! Suc k) (as_real i)) (Fin (p ! Suc k)))
                              (np_mul (np_power (2 * pi * f ! k) (as_real i)) (Fin (p ! k)))))
                   (Fin 2))
                 [0 ..< length (rows band) - 1]))
       \<and> ((\<forall>x\<in>set f. 0 < x \<or> (x = 0 \<and> 0 \<le> as_real i)) \<longrightarrow>
            get_spectral_moment band i =
              Inr (Fin (\<Sum>k<length (rows band) - 1.
                     (f ! Suc k - f ! k) *
                     (moment_integrand (as_real i) (f ! Suc k) (p ! Suc k) +
                      moment_integrand (as_real i) (f ! k) (p ! k)) / 2)))"
proof -
  let ?n = "length (rows band)"
  let ?y = "map2 (\<lambda>fk pk. np_mul (np_power (2 * pi * fk) (as_real i)) (Fin pk)) f p"
  let ?summand = "\<lambda>k. np_div
                   (np_mul (Fin (f ! Suc k - f ! k))
                      (np_add (np_mul (np_power (2 * pi * f ! Suc k) (as_real i)) (Fin (p ! Suc k)))
                              (np_mul (np_power (2 * pi * f ! k) (as_real i)) (Fin (p ! k)))))
                   (Fin 2)"
  have lf: "length f = ?n" and lp: "length p = ?n"
    using c0 c1 by (simp_all add: column_length)
  have res: "get_spectral_moment band i = Inr (trapz ?y f)"
    using c0 c1 num by (simp add: get_spectral_moment_def)
  have "trapz ?y f =
     np_sum (map (\<lambda>k. np_div (np_mul (Fin (f ! Suc k - f ! k)) (np_add (?y ! Suc k) (?y ! k))) (Fin 2))
               [0 ..< length f - 1])"
    by (rule trapz_indexwise) (simp add: lf lp)
  also have "\<dots> = np_sum (map ?summand [0 ..< ?n - 1])"
    by (rule arg_cong[where f = np_sum]) (auto simp: lf lp)
  finally have general: "get_spectral_moment band i = Inr (np_sum (map ?summand [0 ..< ?n - 1]))"
    using res by simp
  have finite: "get_spectral_moment band i =
              Inr (Fin (\<Sum>k<?n - 1.
                     (f ! Suc k - f ! k) *
                     (moment_integrand (as_real i) (f ! Suc k) (p ! Suc k) +
                      moment_integrand (as_real i) (f ! k) (p ! k)) / 2))"
    if dom: "\<forall>x\<in>set f. 0 < x \<or> (x = 0 \<and> 0 \<le> as_real i)"
  proof -
    let ?r = "\<lambda>k. (f ! Suc k - f ! k) *
                     (moment_integrand (as_real i) (f ! Suc k) (p ! Suc k) +
                      moment_integrand (as_real i) (f ! k) (p ! k)) / 2"
    have pw: "np_mul (np_power (2 * pi * f ! k) (as_real i)) (Fin s) =
              Fin (moment_integrand (as_real i) (f ! k) s)" if "k < ?n" for k s
      by (rule np_power_finite) (use dom that lf in auto)
    have "map ?summand [0 ..< ?n - 1] = map Fin (map ?r [0 ..< ?n - 1])"
      by (auto simp: pw)
    then have "np_sum (map ?summand [0 ..< ?n - 1]) = Fin (sum_list (map ?r [0 ..< ?n - 1]))"
      by (simp only: np_sum_Fin)
    also have "sum_list (map ?r [0 ..< ?n - 1]) = (\<Sum>k<?n - 1. ?r k)"
      by (simp add: interv_sum_list_conv_sum_set_nat atLeast0LessThan)
    finally show ?thesis using general by simp
  qed
  from general finite show ?thesis by blast
qed


theorem spectral_moment_trapezoid_witness:
  "column flat5 0 = Inr [0, 1, 2, 3, 4] \<and> column flat5 1 = Inr [1, 1, 1, 1, 1] \<and>
   isinstance_num (PyFloat 0.75) \<and>
   list_all (\<lambda>x. 0 < x \<or> (x = 0 \<and> 0 \<le> as_real (PyFloat 0.75))) [0, 1, 2, 3, 4 :: real] \<and>
   get_spectral_moment flat5 (PyFloat 0.75) =
     Inr (Fin (\<Sum>k<length (rows flat5) - 1.
            ([0, 1, 2, 3, 4] ! Suc k - [0, 1, 2, 3, 4] ! k) *
            (moment_integrand (as_real (PyFloat 0.75)) ([0, 1, 2, 3, 4] ! Suc k) ([1, 1, 1, 1, 1] ! Suc k) +
             moment_integrand (as_real (PyFloat 0.75)) ([0, 1, 2, 3, 4] ! k) ([1, 1, 1, 1, 1] ! k)) / 2))"
proof -
  have a: "column flat5 0 = Inr [0, 1, 2, 3, 4]" and b: "column flat5 1 = Inr [1, 1, 1, 1, 1]"
    by (rule flat5_columns)+
  have c: "isinstance_num (PyFloat 0.75)" by simp
  have d: "\<forall>x\<in>set [0, 1, 2, 3, 4 :: real]. 0 < x \<or> (x = 0 \<and> 0 \<le> as_real (PyFloat 0.75))"
    by simp
  have d': "list_all (\<lambda>x. 0 < x \<or> (x = 0 \<and> 0 \<le> as_real (PyFloat 0.75))) [0, 1, 2, 3, 4 :: real]"
    by simp
  show ?thesis using a b c d d' spectral_moment_trapezoid[OF a b c] by blast
qed

text \<open>The flat PSD of magnitude 1 over the frequencies 0..4, taken as one band, has
  zeroth moment 4.\<close>

lemma flat5_m0:
  "get_spectral_moments flat5 (PyTuple [PyStr ''equalAreaBands'', PyInt 1]) [PyInt 0] = Inr [[Fin 4]]"
  by (simp add: get_spectral_moments_def band_stop_equalAreaBands equalAreaBands_def flat5_def
      column_def cumsum_def argmin_def Let_def band_slice_def row_slice_def
      get_spectral_moment_def trapz_def diff_def np_sum_def np_power_def)

section \<open>Trimming of the estimated PSD\<close>

lemma calculate_psd_trim:
  assumes w: "welch ext data' fs window nperseg noverlap = Inr (f, p)"
    and len: "length f = length p" and np: "nperseg \<noteq> 0"
  shows "calculate_psd ext data' fs window nperseg noverlap (Some tr) =
           Inr \<lparr>ncols = slice_len \<lfloor>of_int tr * (fs / of_int nperseg)\<rfloor> 2,
                rows = map (slice_to \<lfloor>of_int tr * (fs / of_int nperseg)\<rfloor>)
                         (slice_to \<lfloor>of_int tr * (fs / of_int nperseg)\<rfloor> (map2 (\<lambda>a b. [a, b]) f p))\<rparr>"
  using assms by (simp add: calculate_psd_def vstack_transpose_def Let_def)

text \<open>
  Claim C8 does not hold of \<^verbatim>\<open>_calculate_psd\<close>. With a trim length configured, the
  array returned is \<^verbatim>\<open>psd[:k, :k]\<close> for \<open>k = \<lfloor>trim * fs / nperseg\<rfloor>\<close>: the number of
  rows kept is \<open>k\<close>, not the trim length, and the columns are cut by the same bound.
  For \<^verbatim>\<open>fs = 2\<close>, \<^verbatim>\<open>nperseg = 4\<close> and trim length 2 the result has one row with one
  column, where the first two frequency bins of the estimate are the rows
  \<open>[0, 3]\<close> and \<open>[0.5, 4]\<close>.
\<close>

theorem trim_keeps_other_rows:
  "calculate_psd sample_ext data' 2 window 4 noverlap (Some 2) = Inr \<lparr>ncols = 1, rows = [[0]]\<rparr> \<and>
   calculate_psd sample_ext data' 2 window 4 noverlap None =
     Inr \<lparr>ncols = 2, rows = [[0, 3], [1 / 2, 4], [1, 5]]\<rparr> \<and>
   first_bins 2 \<lparr>ncols = 2, rows = [[0, 3], [1 / 2, 4], [1, 5]]\<rparr> =
     \<lparr>ncols = 2, rows = [[0, 3], [1 / 2, 4]]\<rparr>"
  by (simp add: calculate_psd_def sample_ext_def vstack_transpose_def slice_len_def slice_to_def
      first_bins_def Let_def)

text \<open>Constructing the container from a time history with those settings fails: the
  one-column array has no magnitude column for the coefficients to read.\<close>

lemma trimmed_construction_fails:
  "SpectralData_init sample_ext (PyTuple [PyArray xs, PyFloat (1 / 2)]) window 4 noverlap (Some 2)
     \<lparr>kw_dt = None, kw_rg = None\<rparr> =
   Inl (ValueError ''Unknown splitting method: equalAreaBands'')"
  by (simp add: SpectralData_init_def read_input_def deprecated_dt_def time_history_input_def calculate_psd_def
      sample_ext_def vstack_transpose_def slice_len_def slice_to_def Let_def
      calculate_coefficients_def get_spectral_moments_def band_stop_equalAreaBands
      equalAreaBands_def column_def)

section \<open>Values of the queries\<close>


lemma get_spectral_moment_value:
  "1 < ncols a \<Longrightarrow> isinstance_num i \<Longrightarrow> get_spectral_moment a i = Inr (moment_value a (as_real i))"
  by (simp add: get_spectral_moment_def column_def moment_value_def Let_def)

lemma band_slice_ncols: "ncols (band_slice psd b k) = ncols psd"
  by (simp add: band_slice_def row_slice_def)

lemma get_spectral_moments_value:
  assumes "get_band_stop_frequency psd policy = Inr b" and "1 < ncols psd"
    and "list_all isinstance_num orders"
  shows "get_spectral_moments psd policy orders =
           Inr (map (\<lambda>k. map (\<lambda>i. moment_value (band_slice psd b k) (as_real i)) orders)
                  [0 ..< length b])"
proof -
  have inner: "mapE (get_spectral_moment (band_slice psd b k)) orders =
               Inr (map (\<lambda>i. moment_value (band_slice psd b k) (as_real i)) orders)" for k
    using assms(2,3)
    by (intro mapE_map get_spectral_moment_value) (auto simp: band_slice_ncols list_all_iff)
  have "mapE (\<lambda>index. mapE (get_spectral_moment (band_slice psd b index)) orders) [0 ..< length b] =
        Inr (map (\<lambda>k. map (\<lambda>i. moment_value (band_slice psd b k) (as_real i)) orders) [0 ..< length b])"
    by (rule mapE_map) (rule inner)
  then show ?thesis using assms(1) by (simp add: get_spectral_moments_def)
qed

lemma as_real_py_double: "isinstance_num i \<Longrightarrow> as_real (py_double i) = 2 * as_real i"
  by (cases i) auto

lemma isinstance_num_py_double: "isinstance_num (py_double i)"
  by (cases i) auto

lemma get_bandwidth_estimator_value:
  assumes "get_band_stop_frequency psd policy = Inr b" and "1 < ncols psd" and "isinstance_num i"
  shows "get_bandwidth_estimator psd policy i =
           Inr (map (\<lambda>k. alpha_value (band_slice psd b k) (as_real i)) [0 ..< length b])"
  using assms
  by (simp add: get_bandwidth_estimator_def get_spectral_moments_value isinstance_num_py_double
      as_real_py_double alpha_value_def)

lemma get_nup_value:
  assumes "get_band_stop_frequency psd policy = Inr b" and "1 < ncols psd"
  shows "get_nup psd policy = Inr (map (\<lambda>k. frequency_value (band_slice psd b k) 2 0) [0 ..< length b])"
  using assms by (simp add: get_nup_def get_spectral_moments_value frequency_value_def)

lemma get_mp_value:
  assumes "get_band_stop_frequency psd policy = Inr b" and "1 < ncols psd"
  shows "get_mp psd policy = Inr (map (\<lambda>k. frequency_value (band_slice psd b k) 4 2) [0 ..< length b])"
  using assms by (simp add: get_mp_def get_spectral_moments_value frequency_value_def)

lemma single_band:
  assumes "1 < ncols psd" and "rows psd \<noteq> []"
  shows "\<exists>k. get_band_stop_frequency psd (PyTuple [PyStr ''equalAreaBands'', PyInt 1]) = Inr [k]"
proof -
  obtain mags where col: "column psd 1 = Inr mags" and "length mags = length (rows psd)"
    using assms(1) by (simp add: column_def)
  then have ne: "mags \<noteq> []" using assms(2) by auto
  obtain idx where "equalAreaBands psd (PyInt 1) = Inr idx" and "length idx = nat 1"
    using equalAreaBands_result[OF col ne, of 1] by auto
  moreover from this obtain k where "idx = [k]" by (cases idx) auto
  ultimately show ?thesis by (auto simp: band_stop_equalAreaBands)
qed

lemma calculate_coefficients_single_band:
  assumes b: "get_band_stop_frequency psd policy = Inr [k]" and c: "1 < ncols psd"
  shows "calculate_coefficients psd policy =
           Inr \<lparr>self_moments = map (moment_value (band_slice psd [k] 0)) [0, 1, 2, 3, 4],
                self_nu = frequency_value (band_slice psd [k] 0) 2 0,
                self_m_p = frequency_value (band_slice psd [k] 0) 4 2,
                self_alpha075 = alpha_value (band_slice psd [k] 0) 0.75,
                self_alpha1 = alpha_value (band_slice psd [k] 0) 1,
                self_alpha2 = alpha_value (band_slice psd [k] 0) 2\<rparr>"
  by (simp add: calculate_coefficients_def get_spectral_moments_value[OF b c]
      get_nup_value[OF b c] get_mp_value[OF b c] get_bandwidth_estimator_value[OF b c])

section \<open>The coefficient cache\<close>







text \<open>
  The single band of that policy ends at the first row whose cumulative magnitude
  reaches the total. It is the whole PSD when the magnitudes are non-negative and the
  last one is positive; with a trailing zero magnitude the band stops earlier, and its
  zeroth moment differs from the trapezoid sum over all rows.
\<close>

lemma whole_psd_single_band:
  assumes col: "column psd 1 = Inr mags" and ne: "rows psd \<noteq> []"
    and nn: "\<forall>x\<in>set mags. 0 \<le> x" and lp: "0 < last mags"
  shows "get_band_stop_frequency psd (PyTuple [PyStr ''equalAreaBands'', PyInt 1]) =
           Inr [length (rows psd) - 1]
       \<and> band_slice psd [length (rows psd) - 1] 0 = psd"
proof -
  have lm: "length mags = length (rows psd)" using col by (rule column_length)
  then have mne: "mags \<noteq> []" using ne by auto
  obtain idx where res: "equalAreaBands psd (PyInt 1) = Inr idx" and len: "length idx = nat 1"
    and fm: "\<forall>n<nat 1. first_min (map (\<lambda>c. \<bar>c - (real n + 1) * sum_list mags / of_int 1\<bar>) (cumsum mags)) (idx ! n)"
    using equalAreaBands_result[OF col mne, of 1] by auto
  from len obtain k where idx: "idx = [k]" by (cases idx) auto
  have "first_min (map (\<lambda>c. \<bar>c - sum_list mags\<bar>) (cumsum mags)) k"
    using fm idx by simp
  then have "k = length mags - 1" by (rule first_min_total_last[OF nn mne lp])
  then have "get_band_stop_frequency psd (PyTuple [PyStr ''equalAreaBands'', PyInt 1]) =
           Inr [length (rows psd) - 1]"
    using res idx lm by (simp add: band_stop_equalAreaBands)
  moreover have "band_slice psd [length (rows psd) - 1] 0 = psd"
    using ne by (simp add: band_slice_def row_slice_def)
  ultimately show ?thesis by simp
qed

lemma trailing_zero_band:
  "get_spectral_moments \<lparr>ncols = 2, rows = [[0, 1], [1, 1], [2, 0]]\<rparr>
     (PyTuple [PyStr ''equalAreaBands'', PyInt 1]) [PyInt 0] = Inr [[Fin 1]] \<and>
   get_spectral_moment \<lparr>ncols = 2, rows = [[0, 1], [1, 1], [2, 0]]\<rparr> (PyInt 0) = Inr (Fin (3 / 2))"
  by (simp add: get_spectral_moments_def band_stop_equalAreaBands equalAreaBands_def
      column_def cumsum_def argmin_def Let_def band_slice_def row_slice_def
      get_spectral_moment_def trapz_def diff_def np_sum_def np_power_def)

section \<open>Attributes set by the constructor\<close>

lemma init_psd_tuple:
  assumes len: "length p = length f" and ne: "f \<noteq> []"
    and rg: "kw_rg kw = None" and nodt: "kw_dt kw = None"
  shows "\<exists>c. calculate_coefficients \<lparr>ncols = 2, rows = map2 (\<lambda>a b. [a, b]) f p\<rparr> whole_psd_policy = Inr c \<and>
           SpectralData_init ext (PyTuple [PyArray p, PyArray f]) window nperseg noverlap psd_trim_length kw =
             Inr \<lparr>self_psd = \<lparr>ncols = 2, rows = map2 (\<lambda>a b. [a, b]) f p\<rparr>,
                  self_data = None, self_dt = None, self_t = None, self_trim_length = None,
                  self_PSD_splitting = whole_psd_policy, coeffs = c\<rparr>"
proof -
  let ?psd = "\<lparr>ncols = 2, rows = map2 (\<lambda>a b. [a, b]) f p\<rparr>"
  have "rows ?psd \<noteq> []" using len ne by (cases f; cases p) auto
  then obtain k where k: "get_band_stop_frequency ?psd whole_psd_policy = Inr [k]"
    using single_band[of ?psd] by (auto simp: whole_psd_policy_def)
  have "\<exists>c. calculate_coefficients ?psd whole_psd_policy = Inr c"
    using calculate_coefficients_single_band[OF k] by simp
  then obtain c where c: "calculate_coefficients ?psd whole_psd_policy = Inr c" by blast
  have "read_input ext (PyTuple [PyArray p, PyArray f]) window nperseg noverlap psd_trim_length kw =
          Inr (?psd, None, None, None, None)"
    using len rg nodt by (simp add: read_input_def deprecated_dt_def column_stack_def psd_input_def)
  then show ?thesis using c
    by (auto simp: SpectralData_init_def whole_psd_policy_def Let_def)
qed


lemma psd_input_attributes:
  assumes "psd_input a kw = Inr (a', d, dt', t', tr)"
  shows "(d \<noteq> None \<longleftrightarrow> kw_rg kw \<noteq> None) \<and> (dt' \<noteq> None \<longleftrightarrow> kw_rg kw \<noteq> None) \<and>
         (t' \<noteq> None \<longleftrightarrow> kw_rg kw \<noteq> None)"
  using assms by (auto simp: psd_input_def split: option.splits sum.splits prod.splits)

lemma time_history_input_attributes:
  assumes "time_history_input ext xs dv window nperseg noverlap trim = Inr (a', d, dt', t', tr)"
  shows "d \<noteq> None \<and> dt' \<noteq> None \<and> t' \<noteq> None"
  using assms by (auto simp: time_history_input_def split: if_splits sum.splits)

lemma read_input_attributes:
  assumes r: "read_input ext input window nperseg noverlap trim kw = Inr (a', d, dt', t', tr)"
  shows "(d \<noteq> None \<longleftrightarrow> kw_rg kw \<noteq> None \<or> is_time_history (deprecated_dt input kw)) \<and>
         (dt' \<noteq> None \<longleftrightarrow> kw_rg kw \<noteq> None \<or> is_time_history (deprecated_dt input kw)) \<and>
         (t' \<noteq> None \<longleftrightarrow> kw_rg kw \<noteq> None \<or> is_time_history (deprecated_dt input kw))"
proof -
  let ?i = "deprecated_dt input kw"
  consider (th) "is_time_history ?i" | (other) "\<not> is_time_history ?i" by blast
  then show ?thesis
  proof cases
    case th
    then consider (arr) xs dv where "?i = PyTuple [PyArray xs, dv]" "isinstance_num dv"
      | (pth) path dv where "?i = PyTuple [PyStr path, dv]" "isinstance_num dv"
      by (cases ?i rule: is_time_history.cases) auto
    then show ?thesis
    proof cases
      case arr
      then have "time_history_input ext xs dv window nperseg noverlap trim = Inr (a', d, dt', t', tr)"
        using r by (cases dv) (auto simp: read_input_def Let_def)
      with th show ?thesis using time_history_input_attributes by blast
    next
      case pth
      then obtain ys where "time_history_input ext ys dv window nperseg noverlap trim = Inr (a', d, dt', t', tr)"
        using r by (auto simp: read_input_def Let_def split: sum.splits)
      with th show ?thesis using time_history_input_attributes by blast
    qed
  next
    case other
    then have "\<exists>a. psd_input a kw = Inr (a', d, dt', t', tr)"
      using r unfolding read_input_def Let_def
      by (cases ?i rule: is_time_history.cases)
        (auto split: if_splits sum.splits pyval.splits list.splits)
    with other show ?thesis using psd_input_attributes by blast
  qed
qed

text \<open>
  Claim C10. Constructed from a pair of arrays (PSD magnitudes, frequencies) of equal
  non-zero length, with neither the keyword \<^verbatim>\<open>rg\<close> nor the keyword \<^verbatim>\<open>dt\<close>, the
  constructor returns an object that holds the two-column PSD and the coefficients
  computed from it, and whose attributes \<^verbatim>\<open>data\<close>, \<^verbatim>\<open>dt\<close> and \<^verbatim>\<open>t\<close> were never
  assigned. For any input, if the constructor returns an object on which one of these
  three attributes is assigned, then a generator was supplied or the input was a time
  history (an array or a file path with a numeric sampling interval).
\<close>

theorem psd_input_leaves_time_attributes_unset:
  "(length p = length f \<and> f \<noteq> [] \<and> kw_rg kw = None \<and> kw_dt kw = None \<longrightarrow>
      (\<exists>sd. SpectralData_init ext (PyTuple [PyArray p, PyArray f]) window nperseg noverlap
               psd_trim_length kw = Inr sd \<and>
            self_psd sd = \<lparr>ncols = 2, rows = map2 (\<lambda>a b. [a, b]) f p\<rparr> \<and>
            calculate_coefficients (self_psd sd) (PyTuple [PyStr ''equalAreaBands'', PyInt 1]) =
              Inr (coeffs sd) \<and>
            self_data sd = None \<and> self_dt sd = None \<and> self_t sd = None))
   \<and> (SpectralData_init ext input window nperseg noverlap psd_trim_length kw = Inr sd' \<and>
        (self_data sd' \<noteq> None \<or> self_dt sd' \<noteq> None \<or> self_t sd' \<noteq> None) \<longrightarrow>
          kw_rg kw \<noteq> None \<or> is_time_history (deprecated_dt input kw))"
proof (intro conjI impI)
  assume "length p = length f \<and> f \<noteq> [] \<and> kw_rg kw = None \<and> kw_dt kw = None"
  then obtain c where
    "calculate_coefficients \<lparr>ncols = 2, rows = map2 (\<lambda>a b. [a, b]) f p\<rparr> whole_psd_policy = Inr c"
    "SpectralData_init ext (PyTuple [PyArray p, PyArray f]) window nperseg noverlap psd_trim_length kw =
       Inr \<lparr>self_psd = \<lparr>ncols = 2, rows = map2 (\<lambda>a b. [a, b]) f p\<rparr>,
            self_data = None, self_dt = None, self_t = None, self_trim_length = None,
            self_PSD_splitting = whole_psd_policy, coeffs = c\<rparr>"
    using init_psd_tuple[of p f kw ext window nperseg noverlap psd_trim_length] by blast
  then show "\<exists>sd. SpectralData_init ext (PyTuple [PyArray p, PyArray f]) window nperseg noverlap
               psd_trim_length kw = Inr sd \<and>
            self_psd sd = \<lparr>ncols = 2, rows = map2 (\<lambda>a b. [a, b]) f p\<rparr> \<and>
            calculate_coefficients (self_psd sd) (PyTuple [PyStr ''equalAreaBands'', PyInt 1]) =
              Inr (coeffs sd) \<and>
            self_data sd = None \<and> self_dt sd = None \<and> self_t sd = None"
    by (simp add: whole_psd_policy_def)
next
  assume h: "SpectralData_init ext input window nperseg noverlap psd_trim_length kw = Inr sd' \<and>
        (self_data sd' \<noteq> None \<or> self_dt sd' \<noteq> None \<or> self_t sd' \<noteq> None)"
  then obtain a' tr where
    "read_input ext input window nperseg noverlap psd_trim_length kw =
       Inr (a', self_data sd', self_dt sd', self_t sd', tr)"
    by (auto simp: SpectralData_init_def Let_def split: sum.splits prod.splits)
  from read_input_attributes[OF this] h
  show "kw_rg kw \<noteq> None \<or> is_time_history (deprecated_dt input kw)" by blast
qed

lemma init_time_history_sample:
  "\<exists>sd. SpectralData_init sample_ext (PyTuple [PyArray xs, PyFloat (1 / 2)]) window 4 noverlap None
          \<lparr>kw_dt = None, kw_rg = None\<rparr> = Inr sd \<and>
        self_data sd = Some xs \<and> self_dt sd = Some (Fin (1 / 2)) \<and>
        self_t sd = Some (Fin (1 / 2 * real (length xs)))"
proof -
  let ?psd = "\<lparr>ncols = 2, rows = [[0, 3], [1 / 2, 4], [1, 5]]\<rparr>"
  have r: "read_input sample_ext (PyTuple [PyArray xs, PyFloat (1 / 2)]) window 4 noverlap None
          \<lparr>kw_dt = None, kw_rg = None\<rparr> =
        Inr (?psd, Some xs, Some (Fin (1 / 2)), Some (Fin (1 / 2 * real (length xs))), Some None)"
    by (simp add: read_input_def deprecated_dt_def time_history_input_def calculate_psd_def
        sample_ext_def vstack_transpose_def)
  obtain k where k: "get_band_stop_frequency ?psd whole_psd_policy = Inr [k]"
    using single_band[of ?psd] by (auto simp: whole_psd_policy_def)
  have "\<exists>c. calculate_coefficients ?psd whole_psd_policy = Inr c"
    using calculate_coefficients_single_band[OF k] by simp
  then show ?thesis using r
    by (auto simp: SpectralData_init_def whole_psd_policy_def Let_def)
qed

theorem psd_input_leaves_time_attributes_unset_witness:
  "(\<exists>sd. SpectralData_init sample_ext (PyTuple [PyArray [1, 1, 1, 1, 1], PyArray [0, 1, 2, 3, 4]])
           (PyStr ''hanning'') 1280 None None \<lparr>kw_dt = None, kw_rg = None\<rparr> = Inr sd \<and>
         self_psd sd = flat5 \<and>
         calculate_coefficients (self_psd sd) (PyTuple [PyStr ''equalAreaBands'', PyInt 1]) =
           Inr (coeffs sd) \<and>
         self_data sd = None \<and> self_dt sd = None \<and> self_t sd = None) \<and>
   (\<exists>sd. SpectralData_init sample_ext (PyTuple [PyArray [1, 2], PyFloat (1 / 2)])
           (PyStr ''hanning'') 4 None None \<lparr>kw_dt = None, kw_rg = None\<rparr> = Inr sd \<and>
         self_data sd \<noteq> None \<and>
         is_time_history (deprecated_dt (PyTuple [PyArray [1, 2], PyFloat (1 / 2)])
           \<lparr>kw_dt = None, kw_rg = None\<rparr>))"
proof -
  let ?kw = "\<lparr>kw_dt = None, kw_rg = None\<rparr>"
  obtain sd where sd: "SpectralData_init sample_ext (PyTuple [PyArray [1, 2], PyFloat (1 / 2)])
           (PyStr ''hanning'') 4 None None ?kw = Inr sd" and d: "self_data sd \<noteq> None"
    using init_time_history_sample[of "[1, 2]" "PyStr ''hanning''" None] by auto
  have h1: "length [1, 1, 1, 1, 1 :: real] = length [0, 1, 2, 3, 4 :: real] \<and> [0, 1, 2, 3, 4 :: real] \<noteq> [] \<and>
            kw_rg ?kw = None \<and> kw_dt ?kw = None" by simp
  have h2: "SpectralData_init sample_ext (PyTuple [PyArray [1, 2], PyFloat (1 / 2)])
           (PyStr ''hanning'') 4 None None ?kw = Inr sd \<and>
        (self_data sd \<noteq> None \<or> self_dt sd \<noteq> None \<or> self_t sd \<noteq> None)"
    using sd d by simp
  have A: "\<exists>sd. SpectralData_init sample_ext (PyTuple [PyArray [1, 1, 1, 1, 1], PyArray [0, 1, 2, 3, 4]])
           (PyStr ''hanning'') 1280 None None ?kw = Inr sd \<and>
         self_psd sd = \<lparr>ncols = 2, rows = map2 (\<lambda>a b. [a, b]) [0, 1, 2, 3, 4] [1, 1, 1, 1, 1]\<rparr> \<and>
         calculate_coefficients (self_psd sd) (PyTuple [PyStr ''equalAreaBands'', PyInt 1]) =
           Inr (coeffs sd) \<and>
         self_data sd = None \<and> self_dt sd = None \<and> self_t sd = None"
    using h1 psd_input_leaves_time_attributes_unset[of "[1, 1, 1, 1, 1]" "[0, 1, 2, 3, 4]" ?kw sample_ext
        "PyStr ''hanning''" 1280 None None] by blast
  have B: "kw_rg ?kw \<noteq> None \<or> is_time_history (deprecated_dt (PyTuple [PyArray [1, 2], PyFloat (1 / 2)]) ?kw)"
    using h2 psd_input_leaves_time_attributes_unset[of _ _ ?kw sample_ext
        "PyStr ''hanning''" 4 None None "PyTuple [PyArray [1, 2], PyFloat (1 / 2)]" sd] by blast
  have flat: "\<lparr>ncols = 2, rows = map2 (\<lambda>a b. [a, b]) [0, 1, 2, 3, 4] [1, 1, 1, 1, 1]\<rparr> = flat5"
    by (simp add: flat5_def)
  from A flat have A': "\<exists>sd. SpectralData_init sample_ext (PyTuple [PyArray [1, 1, 1, 1, 1], PyArray [0, 1, 2, 3, 4]])
           (PyStr ''hanning'') 1280 None None ?kw = Inr sd \<and>
         self_psd sd = flat5 \<and>
         calculate_coefficients (self_psd sd) (PyTuple [PyStr ''equalAreaBands'', PyInt 1]) =
           Inr (coeffs sd) \<and>
         self_data sd = None \<and> self_dt sd = None \<and> self_t sd = None" by simp
  from B have B': "is_time_history (deprecated_dt (PyTuple [PyArray [1, 2], PyFloat (1 / 2)]) ?kw)"
    by simp
  show ?thesis using A' sd d B' by blast
qed

section \<open>Range of the bandwidth estimator\<close>

subsection \<open>A Cauchy-Schwarz inequality for weighted sums\<close>

lemma cs_cross:
  fixes S0 S1 S2 w :: real
  assumes cs: "S1\<^sup>2 \<le> S0 * S2" and s0: "0 \<le> S0" and s2: "0 \<le> S2"
  shows "2 * S1 * w \<le> S0 * w\<^sup>2 + S2"
proof -
  let ?a = "sqrt S0" and ?b = "sqrt S2"
  have a: "?a\<^sup>2 = S0" and b: "?b\<^sup>2 = S2" using s0 s2 by simp_all
  have "\<bar>S1\<bar> = sqrt (S1\<^sup>2)" by simp
  also have "\<dots> \<le> sqrt (S0 * S2)" using cs by (rule real_sqrt_le_mono)
  also have "\<dots> = ?a * ?b" by (rule real_sqrt_mult)
  finally have s1: "\<bar>S1\<bar> \<le> ?a * ?b" .
  have "2 * S1 * w \<le> 2 * \<bar>S1\<bar> * \<bar>w\<bar>"
    by (metis abs_ge_self abs_mult abs_numeral mult.assoc)
  also have "\<dots> \<le> 2 * (?a * ?b) * \<bar>w\<bar>"
    using s1 by (intro mult_right_mono mult_left_mono) simp_all
  also have "\<dots> \<le> (?a * \<bar>w\<bar>)\<^sup>2 + ?b\<^sup>2"
    using sum_squares_bound[of "?a * \<bar>w\<bar>" "?b"] by (simp add: mult_ac)
  also have "\<dots> = S0 * w\<^sup>2 + S2" using a b by (simp add: power_mult_distrib)
  finally show ?thesis .
qed

lemma cs_step:
  fixes S0 S1 S2 c w :: real
  assumes cs: "S1\<^sup>2 \<le> S0 * S2" and s0: "0 \<le> S0" and s2: "0 \<le> S2" and c: "0 \<le> c"
  shows "(S1 + c * w)\<^sup>2 \<le> (S0 + c) * (S2 + c * w\<^sup>2) \<and> 0 \<le> S0 + c \<and> 0 \<le> S2 + c * w\<^sup>2"
proof -
  have "c * (2 * S1 * w) \<le> c * (S0 * w\<^sup>2 + S2)"
    using cs_cross[OF cs s0 s2] c by (rule mult_left_mono)
  then have "S1\<^sup>2 + c * (2 * S1 * w) \<le> S0 * S2 + c * (S0 * w\<^sup>2 + S2)"
    using cs by linarith
  moreover have "(S1 + c * w)\<^sup>2 = S1\<^sup>2 + c * (2 * S1 * w) + c\<^sup>2 * w\<^sup>2"
    by (simp add: power2_eq_square algebra_simps)
  moreover have "(S0 + c) * (S2 + c * w\<^sup>2) = S0 * S2 + c * (S0 * w\<^sup>2 + S2) + c\<^sup>2 * w\<^sup>2"
    by (simp add: power2_eq_square algebra_simps)
  ultimately have "(S1 + c * w)\<^sup>2 \<le> (S0 + c) * (S2 + c * w\<^sup>2)" by linarith
  moreover have "0 \<le> S0 + c" using s0 c by simp
  moreover have "0 \<le> S2 + c * w\<^sup>2" using s2 c by simp
  ultimately show ?thesis by simp
qed

lemma cs_pairs:
  fixes c c' u v :: "nat \<Rightarrow> real"
  assumes "\<forall>k<m. 0 \<le> c k \<and> 0 \<le> c' k"
  shows "(\<Sum>k<m. c k * u k + c' k * v k)\<^sup>2 \<le>
           (\<Sum>k<m. c k + c' k) * (\<Sum>k<m. c k * (u k)\<^sup>2 + c' k * (v k)\<^sup>2)
       \<and> 0 \<le> (\<Sum>k<m. c k + c' k)
       \<and> 0 \<le> (\<Sum>k<m. c k * (u k)\<^sup>2 + c' k * (v k)\<^sup>2)"
  using assms
proof (induction m)
  case 0
  then show ?case by simp
next
  case (Suc m)
  let ?S1 = "\<Sum>k<m. c k * u k + c' k * v k"
  let ?S0 = "\<Sum>k<m. c k + c' k"
  let ?S2 = "\<Sum>k<m. c k * (u k)\<^sup>2 + c' k * (v k)\<^sup>2"
  have ih: "?S1\<^sup>2 \<le> ?S0 * ?S2" "0 \<le> ?S0" "0 \<le> ?S2" using Suc by simp_all
  have cm: "0 \<le> c m" "0 \<le> c' m" using Suc.prems by simp_all
  have st1: "(?S1 + c m * u m)\<^sup>2 \<le> (?S0 + c m) * (?S2 + c m * (u m)\<^sup>2)"
    "0 \<le> ?S0 + c m" "0 \<le> ?S2 + c m * (u m)\<^sup>2"
    using cs_step[OF ih cm(1), of "u m"] by simp_all
  have st2: "(?S1 + c m * u m + c' m * v m)\<^sup>2 \<le>
             (?S0 + c m + c' m) * (?S2 + c m * (u m)\<^sup>2 + c' m * (v m)\<^sup>2)"
    "0 \<le> ?S0 + c m + c' m" "0 \<le> ?S2 + c m * (u m)\<^sup>2 + c' m * (v m)\<^sup>2"
    using cs_step[OF st1 cm(2), of "v m"] by simp_all
  show ?case using st2 by (simp add: add.assoc)
qed

lemma integrand_zero: "moment_integrand 0 x s = s"
  by (simp add: moment_integrand_def)

lemma integrand_double:
  "moment_integrand (2 * i) x s = (if i = 0 then 1 else (2 * pi * x) powr i)\<^sup>2 * s"
proof (cases "i = 0")
  case True
  then show ?thesis by (simp add: moment_integrand_def)
next
  case False
  have "2 * i = i + i" by simp
  then have "(2 * pi * x) powr (2 * i) = (2 * pi * x) powr i * (2 * pi * x) powr i"
    by (simp only: powr_add)
  also have "\<dots> = ((2 * pi * x) powr i)\<^sup>2" by (simp only: power2_eq_square)
  finally show ?thesis using False by (simp add: moment_integrand_def)
qed

lemma trapezoid_term:
  fixes d w1 w0 p1 p0 :: real
  shows "d * (w1 * p1 + w0 * p0) / 2 = d * p1 / 2 * w1 + d * p0 / 2 * w0"
  by (simp add: algebra_simps)

lemma trapezoid_term0:
  fixes d p1 p0 :: real
  shows "d * (p1 + p0) / 2 = d * p1 / 2 + d * p0 / 2"
  by (simp add: field_simps)

lemma trapezoid_cs:
  assumes srt: "sorted f" and len: "length p = length f" and nn: "\<forall>x\<in>set p. 0 \<le> x"
  shows "(trapezoid_moment f p i)\<^sup>2 \<le> trapezoid_moment f p 0 * trapezoid_moment f p (2 * i)
       \<and> 0 \<le> trapezoid_moment f p 0 \<and> 0 \<le> trapezoid_moment f p (2 * i)
       \<and> 0 \<le> trapezoid_moment f p i"
proof -
  let ?m = "length f - 1"
  let ?w = "\<lambda>x. if i = 0 then 1 else (2 * pi * x) powr i"
  let ?c = "\<lambda>k. (f ! Suc k - f ! k) * p ! Suc k / 2"
  let ?c' = "\<lambda>k. (f ! Suc k - f ! k) * p ! k / 2"
  let ?u = "\<lambda>k. ?w (f ! Suc k)"
  let ?v = "\<lambda>k. ?w (f ! k)"
  have pos: "0 \<le> ?c k \<and> 0 \<le> ?c' k" if "k < ?m" for k
  proof -
    have k: "Suc k < length f" using that by simp
    then have "f ! k \<le> f ! Suc k" using srt by (simp add: sorted_iff_nth_mono)
    moreover have "0 \<le> p ! Suc k" "0 \<le> p ! k" using nn k len by simp_all
    ultimately show ?thesis by simp
  qed
  have posall: "\<forall>k<?m. 0 \<le> ?c k \<and> 0 \<le> ?c' k" using pos by blast
  have wpos: "0 \<le> ?w x" for x by simp
  have t1: "trapezoid_moment f p i = (\<Sum>k<?m. ?c k * ?u k + ?c' k * ?v k)"
    unfolding trapezoid_moment_def moment_integrand_def
    by (rule sum.cong[OF refl]) (rule trapezoid_term)
  have t0: "trapezoid_moment f p 0 = (\<Sum>k<?m. ?c k + ?c' k)"
    unfolding trapezoid_moment_def integrand_zero
    by (rule sum.cong[OF refl]) (rule trapezoid_term0)
  have t2: "trapezoid_moment f p (2 * i) = (\<Sum>k<?m. ?c k * (?u k)\<^sup>2 + ?c' k * (?v k)\<^sup>2)"
    unfolding trapezoid_moment_def integrand_double
    by (rule sum.cong[OF refl]) (rule trapezoid_term)
  have "0 \<le> (\<Sum>k<?m. ?c k * ?u k + ?c' k * ?v k)"
  proof (rule sum_nonneg)
    fix k assume "k \<in> {..<?m}"
    then have "0 \<le> ?c k \<and> 0 \<le> ?c' k" using pos by simp
    then show "0 \<le> ?c k * ?u k + ?c' k * ?v k"
      using wpos by (intro add_nonneg_nonneg mult_nonneg_nonneg) simp_all
  qed
  moreover note cs_pairs[of ?m ?c ?c' ?u ?v, OF posall]
  ultimately show ?thesis by (simp only: t0 t1 t2)
qed

subsection \<open>Moments of a band\<close>

lemma trapz_finite:
  assumes len: "length p = length f" and dom: "\<forall>x\<in>set f. 0 < x \<or> (x = 0 \<and> 0 \<le> i)"
  shows "trapz (map2 (\<lambda>fk pk. np_mul (np_power (2 * pi * fk) i) (Fin pk)) f p) f =
           Fin (trapezoid_moment f p i)"
proof -
  let ?y = "map2 (\<lambda>fk pk. np_mul (np_power (2 * pi * fk) i) (Fin pk)) f p"
  let ?r = "\<lambda>k. (f ! Suc k - f ! k) *
              (moment_integrand i (f ! Suc k) (p ! Suc k) + moment_integrand i (f ! k) (p ! k)) / 2"
  have y: "?y ! k = Fin (moment_integrand i (f ! k) (p ! k))" if "k < length f" for k
    using that len dom by (simp add: np_power_finite)
  have "trapz ?y f =
     np_sum (map (\<lambda>k. np_div (np_mul (Fin (f ! Suc k - f ! k)) (np_add (?y ! Suc k) (?y ! k))) (Fin 2))
               [0 ..< length f - 1])"
    by (rule trapz_indexwise) (simp add: len)
  also have "map (\<lambda>k. np_div (np_mul (Fin (f ! Suc k - f ! k)) (np_add (?y ! Suc k) (?y ! k))) (Fin 2))
               [0 ..< length f - 1] = map Fin (map ?r [0 ..< length f - 1])"
    by (auto simp: y)
  also have "np_sum (map Fin (map ?r [0 ..< length f - 1])) = Fin (sum_list (map ?r [0 ..< length f - 1]))"
    by (rule np_sum_Fin)
  also have "sum_list (map ?r [0 ..< length f - 1]) = trapezoid_moment f p i"
    by (simp add: trapezoid_moment_def interv_sum_list_conv_sum_set_nat atLeast0LessThan)
  finally show ?thesis .
qed


lemma band_slice_columns:
  "\<exists>lo n. map (\<lambda>r. r ! j) (rows (band_slice psd b k)) = take n (drop lo (map (\<lambda>r. r ! j) (rows psd)))"
proof -
  have "rows (band_slice psd b k) =
        take (b ! k + 1 - (if k = 0 then 0 else b ! (k - 1)))
          (drop (if k = 0 then 0 else b ! (k - 1)) (rows psd))"
    by (simp add: band_slice_def row_slice_def)
  then have "map (\<lambda>r. r ! j) (rows (band_slice psd b k)) =
        take (b ! k + 1 - (if k = 0 then 0 else b ! (k - 1)))
          (drop (if k = 0 then 0 else b ! (k - 1)) (map (\<lambda>r. r ! j) (rows psd)))"
    by (simp only: take_map drop_map)
  then show ?thesis by blast
qed

lemma band_moments:
  assumes c0: "column psd 0 = Inr f" and c1: "column psd 1 = Inr p"
    and srt: "sorted f" and nn: "\<forall>x\<in>set p. 0 \<le> x"
    and dom: "\<forall>x\<in>set f. 0 < x \<or> (x = 0 \<and> 0 \<le> i)"
  shows "\<exists>m0 mi m2. moment_value (band_slice psd b k) 0 = Fin m0 \<and>
           moment_value (band_slice psd b k) i = Fin mi \<and>
           moment_value (band_slice psd b k) (2 * i) = Fin m2 \<and>
           0 \<le> m0 \<and> 0 \<le> mi \<and> 0 \<le> m2 \<and> mi\<^sup>2 \<le> m0 * m2"
proof -
  let ?a = "band_slice psd b k"
  let ?f = "map (\<lambda>r. r ! 0) (rows ?a)" and ?p = "map (\<lambda>r. r ! 1) (rows ?a)"
  have f: "f = map (\<lambda>r. r ! 0) (rows psd)" and p: "p = map (\<lambda>r. r ! 1) (rows psd)"
    using c0 c1 by (auto simp: column_def split: if_splits)
  obtain lo n where fs: "?f = take n (drop lo f)"
    using band_slice_columns[of 0 psd b k] f by auto
  obtain lo' n' where ps: "?p = take n' (drop lo' p)"
    using band_slice_columns[of 1 psd b k] p by auto
  have len: "length ?p = length ?f" by simp
  have srt': "sorted ?f" unfolding fs using srt by (simp add: sorted_wrt_take sorted_wrt_drop)
  have nn': "\<forall>x\<in>set ?p. 0 \<le> x"
    unfolding ps using nn by (meson in_set_dropD in_set_takeD)
  have sub: "set ?f \<subseteq> set f"
    unfolding fs by (meson in_set_dropD in_set_takeD subsetI)
  have d0: "\<forall>x\<in>set ?f. 0 < x \<or> (x = 0 \<and> 0 \<le> (0 :: real))" using dom sub by auto
  have di: "\<forall>x\<in>set ?f. 0 < x \<or> (x = 0 \<and> 0 \<le> i)" using dom sub by auto
  have d2: "\<forall>x\<in>set ?f. 0 < x \<or> (x = 0 \<and> 0 \<le> 2 * i)" using dom sub by auto
  have v: "moment_value ?a 0 = Fin (trapezoid_moment ?f ?p 0)"
    "moment_value ?a i = Fin (trapezoid_moment ?f ?p i)"
    "moment_value ?a (2 * i) = Fin (trapezoid_moment ?f ?p (2 * i))"
    unfolding moment_value_def Let_def
    using trapz_finite[OF len d0] trapz_finite[OF len di] trapz_finite[OF len d2] by simp_all
  show ?thesis using v trapezoid_cs[OF srt' len nn', of i] by blast
qed




end
